theory Spec2Isabelle
  imports Main "HOL-Library.AList"
begin

section \<open>JavaScript values used by the services\<close>

text \<open>
  A JavaScript string is a sequence of UTF-16 code units. The model writes it as a
  \<^typ>\<open>string\<close>; a \<^typ>\<open>char\<close> stands for a code unit below 256, which covers
  every character the services compare against (line terminators, blanks, ASCII
  letters, backspace codes).
\<close>

abbreviation CR :: char where "CR \<equiv> CHR 0x0D"
abbreviation LF :: char where "LF \<equiv> CHR 0x0A"
abbreviation SP :: char where "SP \<equiv> CHR 0x20"
abbreviation DEL :: char where "DEL \<equiv> CHR 0x7F"
abbreviation BS :: char where "BS \<equiv> CHR 0x08"

text \<open>
  \<open>String.prototype.trim\<close> removes WhiteSpace and LineTerminator code units from both
  ends; the regular expression class \<open>\s\<close> is the same set. Below 256 these are TAB,
  LF, VT, FF, CR, SPACE and NO-BREAK SPACE.
\<close>

definition is_white_space :: "char \<Rightarrow> bool" where
  "is_white_space c = ((of_char c :: nat) \<in> {9, 10, 11, 12, 13, 32, 160})"

definition trim :: "string \<Rightarrow> string" where
  "trim s = rev (dropWhile is_white_space (rev (dropWhile is_white_space s)))"

text \<open>
  \<open>String.prototype.toLowerCase\<close> on code units below 256: the ASCII capitals and the
  Latin-1 capitals (0xC0 to 0xDE without the multiplication sign 0xD7) move up by 32.
\<close>

definition is_upper :: "char \<Rightarrow> bool" where
  "is_upper c =
     (let n = (of_char c :: nat)
      in (65 \<le> n \<and> n \<le> 90) \<or> (192 \<le> n \<and> n \<le> 222 \<and> n \<noteq> 215))"

definition lower_char :: "char \<Rightarrow> char" where
  "lower_char c = (if is_upper c then char_of ((of_char c :: nat) + 32) else c)"

definition toLowerCase :: "string \<Rightarrow> string" where
  "toLowerCase s = map lower_char s"

text \<open>
  \<open>s.split(sep)\<close> for a one-character separator. The result is never the empty array:
  \<open>''.split(' ')\<close> is \<open>['']\<close>.
\<close>

fun split_on :: "char \<Rightarrow> string \<Rightarrow> string list" where
  "split_on sep [] = [[]]"
| "split_on sep (c # cs) =
     (if c = sep then [] # split_on sep cs
      else (case split_on sep cs of
              [] \<Rightarrow> [[c]]
            | w # ws \<Rightarrow> (c # w) # ws))"

datatype js_error =
    ReferenceError string
  | TypeError string
  | Error string

section \<open>The pseudo-terminal process\<close>

text \<open>
  \<open>node-pty\<close> is not part of the repository. A process handle is modelled by what the
  services do to it: the data passed to \<open>ptyProcess.write\<close> in order, whether
  \<open>ptyProcess.kill\<close> has been called, and whether the handle currently raises on
  \<open>write\<close> or on \<open>kill\<close> (the services wrap both calls in \<open>try\<close>/\<open>catch\<close>).
\<close>

record pty_process =
  written :: "string list"
  killed :: bool
  write_throws :: bool
  kill_throws :: bool

definition pty_write :: "string \<Rightarrow> pty_process \<Rightarrow> js_error + pty_process" where
  "pty_write d p =
     (if write_throws p then Inl (Error ''write failed'')
      else Inr (p\<lparr>written := written p @ [d]\<rparr>))"

definition pty_kill :: "pty_process \<Rightarrow> js_error + pty_process" where
  "pty_kill p =
     (if kill_throws p then Inl (Error ''kill failed'')
      else Inr (p\<lparr>killed := True\<rparr>))"

section \<open>OrchestratorCommands: the command interceptor\<close>

text \<open>
  The fields of \<open>OrchestratorCommands\<close> that \<open>_handleTerminalInput\<close> reads and writes
  (\<open>OrchestratorCommands.js\<close>, lines 19 to 31), with what the model needs to follow
  its effects: the commands handed to \<open>handleOrchestratorCommand\<close>, the errors its
  \<open>catch\<close> block reports, and the invocations of the handler that are suspended at
  \<open>await this.handleOrchestratorCommand(...)\<close> (line 990), each with its command.
\<close>

record orchestrator =
  inputBuffer :: string
  orchestratorTerminal :: "pty_process option"
  dispatched :: "string list"
  errorsLogged :: "js_error list"
  awaiting :: "string list"

definition orchestrator_init :: orchestrator where
  "orchestrator_init =
     \<lparr>inputBuffer = [], orchestratorTerminal = None, dispatched = [], errorsLogged = [],
      awaiting = []\<rparr>"

text \<open>The string table of \<open>_handleTerminalInput\<close> (lines 975 to 978).\<close>

definition orchestratorCommands :: "string list" where
  "orchestratorCommands =
     [''ohelp'', ''status'', ''spawn'', ''spawn-claude'', ''spawn-hidden'',
      ''send'', ''broadcast'', ''logs'', ''destroy'', ''handoff'', ''queue'', ''gordon'']"

definition prompt :: string where
  "prompt = ''[Orchestrator]$ ''"

definition caught :: "js_error \<Rightarrow> orchestrator \<Rightarrow> orchestrator" where
  "caught e s = s\<lparr>errorsLogged := errorsLogged s @ [e]\<rparr>"

text \<open>\<open>this.orchestratorTerminal.ptyProcess.write(d)\<close> inside the handler's \<open>try\<close> block.\<close>

definition write_or_catch :: "string \<Rightarrow> pty_process \<Rightarrow> orchestrator \<Rightarrow> orchestrator" where
  "write_or_catch d p s =
     (case pty_write d p of
        Inl e \<Rightarrow> caught e s
      | Inr p' \<Rightarrow> s\<lparr>orchestratorTerminal := Some p'\<rparr>)"

text \<open>
  \<open>_handleTerminalInput(ws, data)\<close>, lines 953 to 1015, is an \<open>async\<close> function with
  one \<open>await\<close>, at line 990. It is modelled in two parts. The first runs from the call
  to the return or, on the directive path, to that \<open>await\<close>, where the invocation is
  suspended and other chunks can be handled; the second is the rest of the directive
  path, run when the awaited call has settled.

  \<open>handleOrchestratorCommand\<close> catches every error it raises (lines 106 to 194) and never
  touches \<open>inputBuffer\<close> or \<open>orchestratorTerminal\<close>. What it does to the orchestrator's
  own process is to write to it (\<open>send\<close>, \<open>broadcast\<close>, \<open>handoff\<close>), each write guarded
  and each made before the command's first own \<open>await\<close>, that is within the call. These
  writes enter the model as \<open>exec\<close>: the data that the command writes to that process.
\<close>

definition priv_handleTerminalInput ::
  "(string \<Rightarrow> string list) \<Rightarrow> orchestrator \<Rightarrow> string \<Rightarrow> orchestrator" where
  "priv_handleTerminalInput exec s data =
     (case orchestratorTerminal s of
        None \<Rightarrow> s
      | Some p \<Rightarrow>
          (let buf = inputBuffer s @ data in
           if CR \<in> set data \<or> LF \<in> set data then
             (let fullCommand = trim buf; s1 = s\<lparr>inputBuffer := []\<rparr> in
              case split_on SP fullCommand of
                [] \<Rightarrow> caught (TypeError ''undefined has no toLowerCase'') s1
              | w # _ \<Rightarrow>
                  if toLowerCase w \<in> set orchestratorCommands then
                    (case pty_write (fullCommand @ [CR, LF]) p of
                       Inl e \<Rightarrow> caught e s1
                     | Inr p1 \<Rightarrow>
                         (let p2 = p1\<lparr>written := written p1 @ exec fullCommand\<rparr>
                          in s1\<lparr>orchestratorTerminal := Some p2,
                                dispatched := dispatched s1 @ [fullCommand],
                                awaiting := awaiting s1 @ [fullCommand]\<rparr>))
                  else write_or_catch data p s1)
           else if data = [DEL] \<or> data = [BS] then
             write_or_catch data p
               (s\<lparr>inputBuffer := (if length buf > 0 then butlast buf else buf)\<rparr>)
           else write_or_catch data p (s\<lparr>inputBuffer := buf\<rparr>)))"

text \<open>
  The rest of the directive path (lines 995 and 996, inside the same \<open>try\<close>), for the
  invocation suspended longest: it writes the prompt to the process the field
  \<open>orchestratorTerminal\<close> holds by then.
\<close>

definition priv_handleTerminalInput_resumed :: "orchestrator \<Rightarrow> orchestrator" where
  "priv_handleTerminalInput_resumed s =
     (case awaiting s of
        [] \<Rightarrow> s
      | c # rest \<Rightarrow>
          (let s1 = s\<lparr>awaiting := rest\<rparr> in
           case orchestratorTerminal s1 of
             None \<Rightarrow> caught (TypeError ''Cannot read properties of null'') s1
           | Some p \<Rightarrow> write_or_catch prompt p s1))"

text \<open>
  \<open>handleOrchestratorCommand\<close>, lines 125 to 190: how the command selects its branch.
  The command is trimmed and split at the regular expression \<open>/\\s+/\<close>, which the source
  writes with a doubled backslash: a separator is a backslash followed by one or more
  letters \<open>s\<close>. The first part, in lower case, is compared with the cases of the switch.
\<close>

fun first_part :: "string \<Rightarrow> string" where
  "first_part (c # d # cs) =
     (if c = CHR 0x5C \<and> d = CHR ''s'' then [] else c # first_part (d # cs))"
| "first_part cs = cs"

datatype branch =
    HandleSpawn
  | HandleSpawnClaude
  | HandleSpawnHidden
  | HandleStatus
  | HandleSendToAgent
  | HandleAgentToAgentComm
  | HandleBroadcast
  | HandleLogs
  | HandleAgentHandoff
  | HandleQueue
  | SendOrchestratorHelp
  | HandleClaudeCommand
  | HandleGordonConsult
  | PassCommandToTerminal

definition command_branch :: "string \<Rightarrow> branch" where
  "command_branch command =
     (let cmd = toLowerCase (first_part (trim command)) in
      if cmd = ''spawn'' then HandleSpawn
      else if cmd = ''spawn-claude'' then HandleSpawnClaude
      else if cmd = ''spawn-hidden'' then HandleSpawnHidden
      else if cmd = ''status'' then HandleStatus
      else if cmd = ''send'' then HandleSendToAgent
      else if cmd = ''agent-comm'' then HandleAgentToAgentComm
      else if cmd = ''broadcast'' then HandleBroadcast
      else if cmd = ''logs'' then HandleLogs
      else if cmd = ''handoff'' then HandleAgentHandoff
      else if cmd = ''queue'' then HandleQueue
      else if cmd = ''ohelp'' \<or> cmd = ''help'' then SendOrchestratorHelp
      else if cmd = ''claude'' then HandleClaudeCommand
      else if cmd = ''gordon'' \<or> cmd = ''gordon-consult'' then HandleGordonConsult
      else PassCommandToTerminal)"

text \<open>
  \<open>handleOrchestratorInit\<close> (lines 38 to 96) is the only place that assigns
  \<open>orchestratorTerminal\<close>: to the terminal the manager holds under the new id, else to
  the manager's latest entry, and not at all when the manager holds none. The argument
  is that lookup's outcome.
\<close>

definition handleOrchestratorInit :: "pty_process option \<Rightarrow> orchestrator \<Rightarrow> orchestrator" where
  "handleOrchestratorInit found s =
     (case found of None \<Rightarrow> s | Some p \<Rightarrow> s\<lparr>orchestratorTerminal := Some p\<rparr>)"

text \<open>
  The states an \<open>OrchestratorCommands\<close> object can be in: constructed, then any
  interleaving of initialisations, input chunks, resumptions of suspended invocations,
  and changes of the process handle made from outside (the process dies, the manager
  writes to it).
\<close>

inductive reachable :: "(string \<Rightarrow> string list) \<Rightarrow> orchestrator \<Rightarrow> bool"
  for exec :: "string \<Rightarrow> string list" where
  r_init: "reachable exec orchestrator_init"
| r_setup: "reachable exec s \<Longrightarrow> reachable exec (handleOrchestratorInit found s)"
| r_input: "reachable exec s \<Longrightarrow> reachable exec (priv_handleTerminalInput exec s data)"
| r_resumed: "reachable exec s \<Longrightarrow> reachable exec (priv_handleTerminalInput_resumed s)"
| r_process: "reachable exec s \<Longrightarrow> orchestratorTerminal s = Some p \<Longrightarrow>
     reachable exec (s\<lparr>orchestratorTerminal := Some p'\<rparr>)"

text \<open>
  The directive vocabulary as the specification lists it (section 6), for comparison
  with \<^const>\<open>orchestratorCommands\<close>.
\<close>

definition spec_directive_vocabulary :: "string list" where
  "spec_directive_vocabulary =
     [''spawn'', ''spawn-claude'', ''spawn-hidden'', ''status'', ''send'', ''broadcast'',
      ''logs'', ''handoff'', ''queue'', ''ohelp'', ''help'', ''claude'', ''gordon'']"

section \<open>TerminalManager: the session registry\<close>

text \<open>
  A JavaScript \<open>Map\<close> keeps its entries in insertion order; \<open>set\<close> on a present key
  replaces the value in place. It is modelled as an association list with
  \<^const>\<open>AList.update\<close>, \<^const>\<open>AList.delete\<close> and \<^const>\<open>map_of\<close>; \<open>size\<close> is its
  length.
\<close>

text \<open>Decimal digits of a number inside a template string.\<close>

fun show_nat :: "nat \<Rightarrow> string" where
  "show_nat n =
     (if n < 10 then [char_of (48 + n)]
      else show_nat (n div 10) @ [char_of (48 + n mod 10)])"

declare show_nat.simps [simp del]

text \<open>\<open>a || b\<close> on strings: the empty string is falsy.\<close>

definition or_else :: "string \<Rightarrow> string \<Rightarrow> string" where
  "or_else a b = (if a = [] then b else a)"

text \<open>A property that may be absent: \<open>undefined\<close> and the empty string are both falsy.\<close>

definition truthy :: "string option \<Rightarrow> bool" where
  "truthy v = (case v of None \<Rightarrow> False | Some s \<Rightarrow> s \<noteq> [])"

text \<open>
  \<open>message.agentType === "claude" || message.mcpServers\<close> (line 322): \<open>true\<close>, or else
  the value of \<open>mcpServers\<close>, an array when the request carries one. An array is truthy,
  also when it is empty.
\<close>

datatype claude_flag = IsTrue | ServerList "string list"

record terminalInfo =
  terminalId :: string
  instanceNumber :: nat
  ptyProcess :: pty_process
  clientWs :: nat
  agentName :: string
  created :: nat
  lastActivity :: nat
  outputBuffer :: "(nat \<times> string) list"
  isClaudeAgent :: claude_flag

record handoff_context =
  ctx_reason :: "string option"
  ctx_message :: "string option"

record transition =
  timestamp :: nat
  fromAgent :: string
  toAgent :: string
  handoff_ctx :: handoff_context
  reason :: string

record handoffInfo =
  currentAgent :: string
  history :: "transition list"

text \<open>
  The fields of \<open>TerminalManager\<close> (constructor, lines 21 to 32), and the part of the
  runtime its methods act on: the timers \<open>setTimeout\<close> has armed and that have neither
  fired nor been cleared (handle, deadline in milliseconds, the terminal id the callback
  closes over), the next timer handle, the clock, and the executables passed to
  \<open>pty.spawn\<close>.
\<close>

record manager =
  terminals :: "(string \<times> terminalInfo) list"
  terminalTimeouts :: "(string \<times> nat) list"
  agentHandoffs :: "(string \<times> handoffInfo) list"
  maxTerminals :: int
  pendingTimers :: "(nat \<times> nat \<times> string) list"
  nextHandle :: nat
  clock :: nat
  spawned :: "string list"

definition manager_new :: "int \<Rightarrow> manager" where
  "manager_new maxT =
     \<lparr>terminals = [], terminalTimeouts = [], agentHandoffs = [], maxTerminals = maxT,
      pendingTimers = [], nextHandle = 0, clock = 0, spawned = []\<rparr>"

text \<open>Why a request failed, as the \<open>error\<close> string of the response tells the client.\<close>

datatype failure =
    MaxTerminalsReached int
  | ConnectionTypeNotImplemented string
  | TerminalNotFound
  | Thrown js_error

text \<open>The messages the manager hands to the senders of \<open>WebSocketUtils\<close>.\<close>

datatype outgoing =
    TerminalCreated string bool "(string \<times> nat \<times> string \<times> claude_flag) option"
      "failure option"
  | TerminalDestroyed string string bool "failure option"
  | CommandExecuted string string bool "failure option"
  | TerminalOutput string string
  | TerminalExit string int "string option"

text \<open>The \<open>terminal-create\<close> message, with the fields \<open>createTerminal\<close> reads.\<close>

record create_message =
  msg_id :: string
  connectionType :: "string option"
  agentType :: "string option"
  mcpServers :: "string list option"
  msg_agentName :: "string option"
  isOrchestrator :: bool
  directory :: "string option"
  project :: "string option"
  cwd :: "string option"

text \<open>
  What the world outside answers during one \<open>createTerminal\<close>: whether
  \<open>fs.mkdirSync\<close> raises, and what \<open>pty.spawn\<close> yields.
\<close>

record spawn_env =
  mkdir_raises :: "js_error option"
  spawn_result :: "js_error + pty_process"

definition thirty_minutes :: nat where
  "thirty_minutes = 30 * 60 * 1000"

text \<open>\<open>clearTimeout(h)\<close>; \<open>clearTimeout(undefined)\<close> does nothing.\<close>

definition clearTimeout :: "nat option \<Rightarrow> manager \<Rightarrow> manager" where
  "clearTimeout h m =
     (case h of
        None \<Rightarrow> m
      | Some k \<Rightarrow> m\<lparr>pendingTimers := AList.delete k (pendingTimers m)\<rparr>)"

text \<open>\<open>_resetTerminalTimeout\<close>, lines 505 to 527.\<close>

definition priv_resetTerminalTimeout :: "string \<Rightarrow> manager \<Rightarrow> manager" where
  "priv_resetTerminalTimeout tid m =
     (let m1 = clearTimeout (map_of (terminalTimeouts m) tid) m;
          h = nextHandle m1
      in m1\<lparr>pendingTimers := pendingTimers m1 @ [(h, clock m1 + thirty_minutes, tid)],
             nextHandle := Suc h,
             terminalTimeouts := AList.update tid h (terminalTimeouts m1)\<rparr>)"

text \<open>
  The callback \<open>_resetTerminalTimeout\<close> arms (lines 513 to 524). A \<open>kill\<close> that raises
  aborts it before the clean-up.
\<close>

definition timeout_callback :: "string \<Rightarrow> manager \<Rightarrow> manager" where
  "timeout_callback tid m =
     (case map_of (terminals m) tid of
        None \<Rightarrow> m
      | Some info \<Rightarrow>
          (case pty_kill (ptyProcess info) of
             Inl e \<Rightarrow> m
           | Inr p \<Rightarrow>
               m\<lparr>terminals := AList.delete tid (terminals m),
                  terminalTimeouts := AList.delete tid (terminalTimeouts m),
                  agentHandoffs := AList.delete tid (agentHandoffs m)\<rparr>))"

text \<open>The runtime fires an armed timer once its deadline has passed.\<close>

definition fire_timer :: "nat \<Rightarrow> manager \<Rightarrow> manager" where
  "fire_timer h m =
     (case map_of (pendingTimers m) h of
        None \<Rightarrow> m
      | Some (deadline, tid) \<Rightarrow>
          if clock m < deadline then m
          else timeout_callback tid (m\<lparr>pendingTimers := AList.delete h (pendingTimers m)\<rparr>))"

text \<open>
  The value of \<open>isClaudeAgent\<close> (line 322); \<open>None\<close> stands for its falsy values.
\<close>

definition isClaudeAgent_of :: "create_message \<Rightarrow> claude_flag option" where
  "isClaudeAgent_of msg =
     (if agentType msg = Some ''claude'' then Some IsTrue
      else map_option ServerList (mcpServers msg))"

text \<open>\<open>message.agentName || `claude-agent-${instanceNumber}`\<close> (lines 409 to 413).\<close>

definition created_name :: "create_message \<Rightarrow> nat \<Rightarrow> string" where
  "created_name msg n =
     (if truthy (msg_agentName msg) then the (msg_agentName msg)
      else ''claude-agent-'' @ show_nat n)"

text \<open>
  \<open>_createTerminalProcess\<close>, lines 320 to 456. In the branch for a plain shell the
  options of \<open>pty.spawn\<close> read \<open>agentWorkspace\<close> (line 397), a \<open>const\<close> declared inside
  the other branch (line 327): evaluating them raises a ReferenceError before the
  shell is spawned. Of that branch the model keeps the \<open>mkdirSync\<close> of the default
  workspace, which comes first, and the error.
\<close>

definition priv_createTerminalProcess ::
  "spawn_env \<Rightarrow> nat \<Rightarrow> string \<Rightarrow> nat \<Rightarrow> create_message \<Rightarrow> manager
     \<Rightarrow> js_error + (manager \<times> outgoing list)" where
  "priv_createTerminalProcess env ws tid n msg m =
     (case isClaudeAgent_of msg of
        Some flag \<Rightarrow>
          (case mkdir_raises env of
             Some e \<Rightarrow> Inl e
           | None \<Rightarrow>
               (case spawn_result env of
                  Inl e \<Rightarrow> Inl e
                | Inr p \<Rightarrow>
                    (let info = \<lparr>terminalId = tid, instanceNumber = n, ptyProcess = p,
                                 clientWs = ws,
                                 agentName = created_name msg n,
                                 created = clock m, lastActivity = clock m,
                                 outputBuffer = [], isClaudeAgent = flag\<rparr>;
                         m1 = m\<lparr>terminals := AList.update tid info (terminals m),
                                spawned := spawned m @ [''claude'']\<rparr>;
                         m2 = priv_resetTerminalTimeout tid m1
                     in Inr (m2, [TerminalCreated (msg_id msg) True
                                    (Some (tid, n, agentName info, flag)) None]))))
      | None \<Rightarrow>
          if \<not> isOrchestrator msg \<and> \<not> truthy (directory msg) \<and> \<not> truthy (project msg)
             \<and> \<not> truthy (cwd msg) \<and> mkdir_raises env \<noteq> None
          then Inl (the (mkdir_raises env))
          else Inl (ReferenceError ''agentWorkspace is not defined''))"

text \<open>
  \<open>createTerminal\<close>, lines 39 to 77. \<open>uuid\<close> is what \<open>uuidv4()\<close> returns, \<open>ws\<close> names
  the client connection.
\<close>

definition createTerminal ::
  "spawn_env \<Rightarrow> string \<Rightarrow> nat \<Rightarrow> create_message \<Rightarrow> manager \<Rightarrow> manager \<times> outgoing list" where
  "createTerminal env uuid ws msg m =
     (if int (length (terminals m)) \<ge> maxTerminals m then
        (m, [TerminalCreated (msg_id msg) False None
               (Some (MaxTerminalsReached (maxTerminals m)))])
      else if truthy (connectionType msg) \<and> connectionType msg \<noteq> Some ''local'' then
        (m, [TerminalCreated (msg_id msg) False None
               (Some (ConnectionTypeNotImplemented (the (connectionType msg))))])
      else
        (let tid = ''terminal-'' @ uuid;
             n = length (terminals m) + 1
         in case priv_createTerminalProcess env ws tid n msg m of
              Inl e \<Rightarrow> (m, [TerminalCreated (msg_id msg) False None (Some (Thrown e))])
            | Inr r \<Rightarrow> r))"

text \<open>\<open>handleTerminalInput\<close>, lines 127 to 143.\<close>

definition handleTerminalInput :: "string \<Rightarrow> string \<Rightarrow> manager \<Rightarrow> manager" where
  "handleTerminalInput tid data m =
     (case map_of (terminals m) tid of
        None \<Rightarrow> m
      | Some info \<Rightarrow>
          (case pty_write data (ptyProcess info) of
             Inl e \<Rightarrow> m
           | Inr p \<Rightarrow>
               priv_resetTerminalTimeout tid
                 (m\<lparr>terminals := AList.update tid (info\<lparr>ptyProcess := p\<rparr>) (terminals m)\<rparr>)))"

text \<open>
  \<open>handleTerminalCommand\<close>, lines 84 to 120. The source appends \<open>"\\r"\<close>: a backslash
  and the letter r.
\<close>

definition handleTerminalCommand ::
  "string \<Rightarrow> string \<Rightarrow> string \<Rightarrow> manager \<Rightarrow> manager \<times> outgoing list" where
  "handleTerminalCommand req tid command m =
     (case map_of (terminals m) tid of
        None \<Rightarrow> (m, [CommandExecuted req tid False (Some TerminalNotFound)])
      | Some info \<Rightarrow>
          (case pty_write (command @ [CHR 0x5C, CHR ''r'']) (ptyProcess info) of
             Inl e \<Rightarrow> (m, [CommandExecuted req tid False (Some (Thrown e))])
           | Inr p \<Rightarrow>
               (priv_resetTerminalTimeout tid
                  (m\<lparr>terminals := AList.update tid (info\<lparr>ptyProcess := p\<rparr>) (terminals m)\<rparr>),
                [CommandExecuted req tid True None])))"

text \<open>\<open>handleDestroyTerminal\<close>, lines 175 to 220.\<close>

definition handleDestroyTerminal ::
  "string \<Rightarrow> string \<Rightarrow> manager \<Rightarrow> manager \<times> outgoing list" where
  "handleDestroyTerminal req tid m =
     (case map_of (terminals m) tid of
        None \<Rightarrow> (m, [TerminalDestroyed req tid False (Some TerminalNotFound)])
      | Some info \<Rightarrow>
          (case pty_kill (ptyProcess info) of
             Inl e \<Rightarrow> (m, [TerminalDestroyed req tid False (Some (Thrown e))])
           | Inr p \<Rightarrow>
               (let m1 = m\<lparr>terminals := AList.delete tid (terminals m)\<rparr>;
                    m2 = clearTimeout (map_of (terminalTimeouts m1) tid) m1;
                    m3 = m2\<lparr>terminalTimeouts := AList.delete tid (terminalTimeouts m2)\<rparr>;
                    m4 = m3\<lparr>agentHandoffs := AList.delete tid (agentHandoffs m3)\<rparr>
                in (m4, [TerminalDestroyed req tid True None]))))"

text \<open>
  The decorations of the hand-off banner, byte for byte as the source file stores them.
\<close>

definition glyph_handoff :: string where
  "glyph_handoff =
     [CHR 0xC3, CHR 0xB0, CHR 0xC5, CHR 0xB8, CHR 0xE2, CHR 0x80, CHR 0x9D,
      CHR 0xE2, CHR 0x80, CHR 0x9E]"

definition glyph_arrow :: string where
  "glyph_arrow = [CHR 0xC3, CHR 0xA2, CHR 0xE2, CHR 0x80, CHR 0xA0, CHR 0xE2, CHR 0x80, CHR 0x99]"

definition glyph_note :: string where
  "glyph_note = [CHR 0xC3, CHR 0xB0, CHR 0xC5, CHR 0xB8, CHR 0xE2, CHR 0x80, CHR 0x9C]"

definition handoff_banner :: "string \<Rightarrow> string \<Rightarrow> handoff_context \<Rightarrow> string list" where
  "handoff_banner previousAgent newAgentName ctx =
     [[CR, LF] @ glyph_handoff @ '' Agent handoff: '' @ previousAgent @ '' '' @ glyph_arrow
        @ '' '' @ newAgentName @ [CR, LF]]
     @ (if truthy (ctx_message ctx)
        then [glyph_note @ '' Context: '' @ the (ctx_message ctx) @ [CR, LF]] else [])
     @ [[CR, LF]]"

text \<open>
  \<open>handoffToAgent\<close>, lines 251 to 301. The function is \<open>async\<close> without an \<open>await\<close>:
  it runs to its end, or to the statement that raises, within the caller's turn. The
  record and the agent name are updated before the banner is written, so they stay
  updated when a write raises. The result is the new manager with the error raised or
  the pair (previous agent, new agent) of the returned object.
\<close>

definition handoffToAgent ::
  "string \<Rightarrow> string \<Rightarrow> handoff_context \<Rightarrow> manager
     \<Rightarrow> manager \<times> (js_error + string \<times> string)" where
  "handoffToAgent tid newAgentName ctx m =
     (case map_of (terminals m) tid of
        None \<Rightarrow> (m, Inl (Error (''Terminal '' @ tid @ '' not found for handoff'')))
      | Some info \<Rightarrow>
          (let handoffInfo =
                 (case map_of (agentHandoffs m) tid of
                    None \<Rightarrow> \<lparr>currentAgent = or_else (agentName info) ''bash'', history = []\<rparr>
                  | Some h \<Rightarrow> h);
               previousAgent = currentAgent handoffInfo;
               entry = \<lparr>timestamp = clock m, fromAgent = previousAgent,
                         toAgent = newAgentName, handoff_ctx = ctx,
                         reason = (if truthy (ctx_reason ctx) then the (ctx_reason ctx)
                                   else ''Manual handoff'')\<rparr>;
               handoffInfo' = \<lparr>currentAgent = newAgentName,
                                history = history handoffInfo @ [entry]\<rparr>;
               info' = info\<lparr>agentName := newAgentName\<rparr>;
               m1 = m\<lparr>agentHandoffs := AList.update tid handoffInfo' (agentHandoffs m),
                      terminals := AList.update tid info' (terminals m)\<rparr>
           in if write_throws (ptyProcess info') then (m1, Inl (Error ''write failed''))
              else
                (m1\<lparr>terminals :=
                      AList.update tid
                        (info'\<lparr>ptyProcess := (ptyProcess info')
                                  \<lparr>written := written (ptyProcess info')
                                     @ handoff_banner previousAgent newAgentName ctx\<rparr>\<rparr>)
                        (terminals m1)\<rparr>,
                 Inr (previousAgent, newAgentName))))"

text \<open>
  The regular expression of \<open>_monitorAgentOutput\<close> (line 565),
  \<open>/handoff-to:(\w+)(?:\s+(.+))?/i\<close>, matched as \<open>String.prototype.match\<close> does: at
  the leftmost position where it matches, greedy, backtracking.
\<close>

definition is_word_char :: "char \<Rightarrow> bool" where
  "is_word_char c =
     (let n = (of_char c :: nat)
      in (48 \<le> n \<and> n \<le> 57) \<or> (65 \<le> n \<and> n \<le> 90) \<or> n = 95 \<or> (97 \<le> n \<and> n \<le> 122))"

text \<open>The dot of a regular expression matches everything but a line terminator.\<close>

definition is_line_terminator :: "char \<Rightarrow> bool" where
  "is_line_terminator c = (c = LF \<or> c = CR)"

text \<open>Under the flag \<open>i\<close> an ASCII letter of the pattern matches both of its cases.\<close>

definition ascii_lower :: "char \<Rightarrow> char" where
  "ascii_lower c =
     (let n = (of_char c :: nat) in if 65 \<le> n \<and> n \<le> 90 then char_of (n + 32) else c)"

fun strip_prefix_ci :: "string \<Rightarrow> string \<Rightarrow> string option" where
  "strip_prefix_ci [] s = Some s"
| "strip_prefix_ci (p # ps) [] = None"
| "strip_prefix_ci (p # ps) (c # cs) =
     (if ascii_lower c = ascii_lower p then strip_prefix_ci ps cs else None)"

text \<open>
  The optional group \<open>(?:\s+(.+))?\<close> on the text \<open>r\<close> after the name, of which the
  first \<open>k\<close> characters are blanks: \<open>\s+\<close> takes as many of them as leaves a character
  that the dot accepts, trying \<open>k\<close> first and giving back one at a time; \<open>.+\<close> then
  runs to the next line terminator. The result is the second capture, if any.
\<close>

fun free_text :: "nat \<Rightarrow> string \<Rightarrow> string option" where
  "free_text 0 r = None"
| "free_text (Suc k) r =
     (case drop (Suc k) r of
        [] \<Rightarrow> free_text k r
      | c # cs \<Rightarrow>
          if is_line_terminator c then free_text k r
          else Some (takeWhile (\<lambda>x. \<not> is_line_terminator x) (c # cs)))"

definition match_here :: "string \<Rightarrow> (string \<times> string option) option" where
  "match_here s =
     (case strip_prefix_ci ''handoff-to:'' s of
        None \<Rightarrow> None
      | Some r \<Rightarrow>
          (let name = takeWhile is_word_char r; r1 = dropWhile is_word_char r
           in if name = [] then None
              else Some (name, free_text (length (takeWhile is_white_space r1)) r1)))"

fun handoffPattern_match :: "string \<Rightarrow> (string \<times> string option) option" where
  "handoffPattern_match [] = match_here []"
| "handoffPattern_match (c # cs) =
     (case match_here (c # cs) of
        Some r \<Rightarrow> Some r
      | None \<Rightarrow> handoffPattern_match cs)"

text \<open>
  \<open>_monitorAgentOutput\<close>, lines 560 to 579. The log file it appends to is outside the
  model; the rejected promise of a failed hand-off is logged and dropped.
\<close>

definition priv_monitorAgentOutput :: "string \<Rightarrow> string \<Rightarrow> manager \<Rightarrow> manager" where
  "priv_monitorAgentOutput tid data m =
     (case handoffPattern_match data of
        None \<Rightarrow> m
      | Some (newAgentName, text2) \<Rightarrow>
          fst (handoffToAgent tid newAgentName
                 \<lparr>ctx_reason = Some ''Agent requested handoff'',
                  ctx_message = Some (case text2 of
                                        None \<Rightarrow> ''No context provided''
                                      | Some x \<Rightarrow> or_else x ''No context provided'')\<rparr> m))"

text \<open>
  The \<open>data\<close> handler of \<open>_setupTerminalEventHandlers\<close>, lines 466 to 486. It closes
  over the \<open>terminalInfo\<close> object created with the terminal; once the terminal has left
  the registry, what it does to that object no longer shows in the manager.
\<close>

definition onData :: "string \<Rightarrow> string \<Rightarrow> manager \<Rightarrow> manager \<times> outgoing list" where
  "onData tid data m =
     (let m1 = priv_monitorAgentOutput tid data m;
          m2 = (case map_of (terminals m1) tid of
                  None \<Rightarrow> m1
                | Some info \<Rightarrow>
                    (let b = outputBuffer info @ [(clock m1, data)];
                         b' = (if length b > 1000 then tl b else b)
                     in m1\<lparr>terminals :=
                             AList.update tid
                               (info\<lparr>outputBuffer := b', lastActivity := clock m1\<rparr>)
                               (terminals m1)\<rparr>))
      in (m2, [TerminalOutput tid data]))"

text \<open>The exit handler of \<open>_setupTerminalEventHandlers\<close>, lines 489 to 498.\<close>

definition onExit :: "string \<Rightarrow> int \<Rightarrow> string option \<Rightarrow> manager \<Rightarrow> manager \<times> outgoing list" where
  "onExit tid exitCode signal m =
     (let m1 = m\<lparr>terminals := AList.delete tid (terminals m)\<rparr>;
          m2 = clearTimeout (map_of (terminalTimeouts m1) tid) m1;
          m3 = m2\<lparr>terminalTimeouts := AList.delete tid (terminalTimeouts m2)\<rparr>;
          m4 = m3\<lparr>agentHandoffs := AList.delete tid (agentHandoffs m3)\<rparr>
      in (m4, [TerminalExit tid exitCode signal]))"

text \<open>
  Everything that can happen to a manager: the requests of clients, the hand-off
  calls, the events of the processes, the timers of the runtime, the passing of time,
  and a process handle starting or ceasing to raise on \<open>write\<close> and \<open>kill\<close>.
\<close>

datatype event =
    Create spawn_env string nat create_message
  | TermInput string string
  | TermCommand string string string
  | Destroy string string
  | Handoff string string handoff_context
  | Data string string
  | Exit string int "string option"
  | Expire nat
  | Tick nat
  | Fault string bool bool

fun step :: "event \<Rightarrow> manager \<Rightarrow> manager" where
  "step (Create env uuid ws msg) m = fst (createTerminal env uuid ws msg m)"
| "step (TermInput tid data) m = handleTerminalInput tid data m"
| "step (TermCommand req tid command) m = fst (handleTerminalCommand req tid command m)"
| "step (Destroy req tid) m = fst (handleDestroyTerminal req tid m)"
| "step (Handoff tid newAgentName ctx) m = fst (handoffToAgent tid newAgentName ctx m)"
| "step (Data tid data) m = fst (onData tid data m)"
| "step (Exit tid exitCode signal) m = fst (onExit tid exitCode signal m)"
| "step (Expire h) m = fire_timer h m"
| "step (Tick n) m = m\<lparr>clock := clock m + n\<rparr>"
| "step (Fault tid w k) m =
     (case map_of (terminals m) tid of
        None \<Rightarrow> m
      | Some info \<Rightarrow>
          m\<lparr>terminals :=
               AList.update tid
                 (info\<lparr>ptyProcess := (ptyProcess info)\<lparr>write_throws := w, kill_throws := k\<rparr>\<rparr>)
                 (terminals m)\<rparr>)"

definition run :: "event list \<Rightarrow> manager \<Rightarrow> manager" where
  "run es m = foldl (\<lambda>s e. step e s) m es"

text \<open>The ids a \<open>Map\<close> holds.\<close>

definition keys :: "('k \<times> 'v) list \<Rightarrow> 'k set" where
  "keys al = fst ` set al"

section \<open>MessageRouter: the message gateway\<close>

text \<open>
  \<open>JSON.parse\<close> is the language's. A text frame enters the model as what
  \<open>JSON.parse\<close> makes of it: a syntax error, or the value parsed.
\<close>

datatype json =
    JNull
  | JBool bool
  | JNumber int
  | JString string
  | JArray "json list"
  | JObject "(string \<times> json) list"

datatype frame = Malformed | Parsed json

text \<open>
  \<open>message.type\<close>: a property read. On \<open>null\<close> it raises a TypeError; on a value that
  is no object, or on an object without the property, it is \<open>undefined\<close>.
\<close>

definition get_type :: "json \<Rightarrow> js_error + json option" where
  "get_type v =
     (case v of
        JNull \<Rightarrow> Inl (TypeError ''Cannot read properties of null'')
      | JObject kvs \<Rightarrow> Inr (map_of kvs ''type'')
      | _ \<Rightarrow> Inr None)"

datatype router_error =
    InvalidMessageFormat
  | UnknownMessageType "json option"
  | ErrorProcessing "json option" js_error

datatype sent_frame = ErrorFrame router_error | Payload json

text \<open>
  A client connection: the \<open>readyState\<close> of the socket (1 is OPEN), the frames sent on
  it, and whether \<open>ws.send\<close> raises.
\<close>

record ws_conn =
  readyState :: nat
  sent :: "sent_frame list"
  send_throws :: bool

text \<open>\<open>sendRawMessage\<close> of \<open>WebSocketUtils.js\<close>, lines 162 to 175.\<close>

definition sendRawMessage :: "ws_conn \<Rightarrow> sent_frame \<Rightarrow> ws_conn \<times> bool" where
  "sendRawMessage ws f =
     (if readyState ws \<noteq> 1 then (ws, False)
      else if send_throws ws then (ws, False)
      else (ws\<lparr>sent := sent ws @ [f]\<rparr>, True))"

text \<open>\<open>sendError\<close>, lines 140 to 142.\<close>

definition sendError :: "ws_conn \<Rightarrow> router_error \<Rightarrow> ws_conn" where
  "sendError ws e = fst (sendRawMessage ws (ErrorFrame e))"

text \<open>
  A handler is a function of the connection and the message; it leaves the connection
  as its sends and closes made it, and may raise. A middleware does the same and then
  either awaits \<open>next()\<close> as its last act, or returns without calling it, or raises.
\<close>

type_synonym handler = "ws_conn \<Rightarrow> json \<Rightarrow> ws_conn \<times> js_error option"

datatype mw_outcome =
    Continue ws_conn json
  | Halt ws_conn
  | Raise ws_conn js_error

type_synonym middleware_fn = "ws_conn \<Rightarrow> json \<Rightarrow> mw_outcome"

record router =
  handlers :: "(string \<times> handler) list"
  middleware :: "middleware_fn list"

text \<open>\<open>this.handlers.get(message.type)\<close>: handlers are registered under strings.\<close>

definition handler_for :: "router \<Rightarrow> json option \<Rightarrow> handler option" where
  "handler_for r t =
     (case t of
        Some (JString name) \<Rightarrow> map_of (handlers r) name
      | _ \<Rightarrow> None)"

text \<open>\<open>routeMessage\<close>, lines 160 to 174.\<close>

definition routeMessage :: "router \<Rightarrow> ws_conn \<Rightarrow> json \<Rightarrow> ws_conn \<times> js_error option" where
  "routeMessage r ws message =
     (case get_type message of
        Inl e \<Rightarrow> (ws, Some e)
      | Inr t \<Rightarrow>
          (case handler_for r t of
             Some h \<Rightarrow>
               (case h ws message of
                  (ws', None) \<Rightarrow> (ws', None)
                | (ws', Some e) \<Rightarrow> (sendError ws' (ErrorProcessing t e), None))
           | None \<Rightarrow> (sendError ws (UnknownMessageType t), None)))"

text \<open>The closure \<open>next\<close> of \<open>handleMessage\<close>, lines 136 to 145, unrolled along the chain.\<close>

fun run_chain ::
  "router \<Rightarrow> middleware_fn list \<Rightarrow> ws_conn \<Rightarrow> json \<Rightarrow> ws_conn \<times> js_error option" where
  "run_chain r [] ws message = routeMessage r ws message"
| "run_chain r (mw # rest) ws message =
     (case mw ws message of
        Continue ws' message' \<Rightarrow> run_chain r rest ws' message'
      | Halt ws' \<Rightarrow> (ws', None)
      | Raise ws' e \<Rightarrow> (ws', Some e))"

text \<open>\<open>handleMessage\<close>, lines 129 to 153.\<close>

definition handleMessage :: "router \<Rightarrow> ws_conn \<Rightarrow> frame \<Rightarrow> ws_conn" where
  "handleMessage r ws data =
     (case data of
        Malformed \<Rightarrow> sendError ws InvalidMessageFormat
      | Parsed message \<Rightarrow>
          (case get_type message of
             Inl e \<Rightarrow> sendError ws InvalidMessageFormat
           | Inr t \<Rightarrow>
               (case run_chain r (middleware r) ws message of
                  (ws', None) \<Rightarrow> ws'
                | (ws', Some e) \<Rightarrow> sendError ws' InvalidMessageFormat)))"

section \<open>Sample values\<close>

definition pty_fresh :: pty_process where
  "pty_fresh = \<lparr>written = [], killed = False, write_throws = False, kill_throws = False\<rparr>"

definition orchestrator_ready :: orchestrator where
  "orchestrator_ready =
     \<lparr>inputBuffer = [], orchestratorTerminal = Some pty_fresh, dispatched = [],
      errorsLogged = [], awaiting = []\<rparr>"

definition no_writes :: "string \<Rightarrow> string list" where
  "no_writes c = []"

definition pty_broken :: pty_process where
  "pty_broken = \<lparr>written = [], killed = False, write_throws = True, kill_throws = False\<rparr>"

definition env_ok :: spawn_env where
  "env_ok = \<lparr>mkdir_raises = None, spawn_result = Inr pty_fresh\<rparr>"

definition env_spawn_fails :: spawn_env where
  "env_spawn_fails = \<lparr>mkdir_raises = None, spawn_result = Inl (Error ''spawn failed'')\<rparr>"

definition claude_request :: create_message where
  "claude_request =
     \<lparr>msg_id = ''r1'', connectionType = Some ''local'', agentType = Some ''claude'',
      mcpServers = None, msg_agentName = Some ''worker'', isOrchestrator = False,
      directory = None, project = None, cwd = None\<rparr>"

definition ssh_request :: create_message where
  "ssh_request = claude_request\<lparr>connectionType := Some ''ssh''\<rparr>"

text \<open>
  A request that names no agent type but lists one MCP server, and a world in which the
  workspace directory cannot be created.
\<close>

definition mcp_request :: create_message where
  "mcp_request =
     \<lparr>msg_id = ''r2'', connectionType = None, agentType = None,
      mcpServers = Some [''filesystem''], msg_agentName = None, isOrchestrator = False,
      directory = None, project = None, cwd = None\<rparr>"

definition env_mkdir_fails :: spawn_env where
  "env_mkdir_fails = \<lparr>mkdir_raises = Some (Error ''EACCES''), spawn_result = Inr pty_fresh\<rparr>"

text \<open>
  The manager after one successful \<open>terminal-create\<close> of the sample request with the
  uuid \<open>u1\<close>, on connection 7.
\<close>

definition worker_info :: terminalInfo where
  "worker_info =
     \<lparr>terminalId = ''terminal-u1'', instanceNumber = 1, ptyProcess = pty_fresh,
      clientWs = 7, agentName = ''worker'', created = 0, lastActivity = 0,
      outputBuffer = [], isClaudeAgent = IsTrue\<rparr>"

definition one_session :: "int \<Rightarrow> manager" where
  "one_session maxT =
     \<lparr>terminals = [(''terminal-u1'', worker_info)],
      terminalTimeouts = [(''terminal-u1'', 0)], agentHandoffs = [], maxTerminals = maxT,
      pendingTimers = [(0, 1800000, ''terminal-u1'')], nextHandle = 1, clock = 0,
      spawned = [''claude'']\<rparr>"

section \<open>The invariant of the registry\<close>

text \<open>
  Every timeout entry and every hand-off record belongs to a registered terminal, and
  every armed timer is the one its terminal's timeout entry names.
\<close>

definition inv :: "manager \<Rightarrow> bool" where
  "inv m \<longleftrightarrow>
     keys (terminalTimeouts m) \<subseteq> keys (terminals m)
     \<and> keys (agentHandoffs m) \<subseteq> keys (terminals m)
     \<and> (\<forall>(h, d, t) \<in> set (pendingTimers m).
           h < nextHandle m \<and> map_of (terminalTimeouts m) t = Some h)"

text \<open>A terminal without a hand-off record carries a non-empty agent name.\<close>

definition named :: "manager \<Rightarrow> bool" where
  "named m \<longleftrightarrow>
     (\<forall>tid \<in> keys (terminals m).
        map_of (agentHandoffs m) tid = None \<longrightarrow>
        agentName (the (map_of (terminals m) tid)) \<noteq> [])"

definition worker_unkillable :: terminalInfo where
  "worker_unkillable = worker_info\<lparr>ptyProcess := pty_fresh\<lparr>kill_throws := True\<rparr>\<rparr>"

definition handoffs :: "string \<Rightarrow> (string \<times> handoff_context) list \<Rightarrow> manager \<Rightarrow> manager" where
  "handoffs tid calls m = foldl (\<lambda>s (a, c). fst (handoffToAgent tid a c s)) m calls"

definition record_before :: "manager \<Rightarrow> string \<Rightarrow> terminalInfo \<Rightarrow> handoffInfo" where
  "record_before m tid info =
     (case map_of (agentHandoffs m) tid of
        None \<Rightarrow> \<lparr>currentAgent = or_else (agentName info) ''bash'', history = []\<rparr>
      | Some h \<Rightarrow> h)"

definition requested :: "string \<Rightarrow> string \<Rightarrow> string \<Rightarrow> transition" where
  "requested previousAgent newAgentName message =
     \<lparr>timestamp = 0, fromAgent = previousAgent, toAgent = newAgentName,
      handoff_ctx = \<lparr>ctx_reason = Some ''Agent requested handoff'',
                     ctx_message = Some message\<rparr>,
      reason = ''Agent requested handoff''\<rparr>"

definition no_context :: handoff_context where
  "no_context = \<lparr>ctx_reason = None, ctx_message = None\<rparr>"

definition manual :: "string \<Rightarrow> string \<Rightarrow> transition" where
  "manual previousAgent newAgentName =
     \<lparr>timestamp = 0, fromAgent = previousAgent, toAgent = newAgentName,
      handoff_ctx = no_context, reason = ''Manual handoff''\<rparr>"

section \<open>Properties of the command interceptor\<close>

lemma split_on_not_Nil: "split_on sep s \<noteq> []"
  by (induction s) (auto split: list.splits)

lemma hd_split_on: "hd (split_on sep s) = takeWhile (\<lambda>c. c \<noteq> sep) s"
  using split_on_not_Nil [of sep]
  by (induction s) (auto split: list.splits)

lemma inputBuffer_caught [simp]: "inputBuffer (caught e s) = inputBuffer s"
  by (simp add: caught_def)

lemma inputBuffer_write_or_catch [simp]: "inputBuffer (write_or_catch d p s) = inputBuffer s"
  by (simp add: write_or_catch_def split: sum.splits)

lemmas js_string_defs = trim_def is_white_space_def toLowerCase_def lower_char_def is_upper_def

lemmas interceptor_defs = priv_handleTerminalInput_def priv_handleTerminalInput_resumed_def
  orchestratorCommands_def prompt_def pty_write_def write_or_catch_def caught_def
  orchestrator_ready_def pty_fresh_def no_writes_def Let_def

lemma unterminated_chunk:
  assumes "orchestratorTerminal s = Some p" and "\<not> write_throws p"
    and "CR \<notin> set c" and "LF \<notin> set c"
  shows "priv_handleTerminalInput exec s c =
     s\<lparr>inputBuffer := (if c = [DEL] \<or> c = [BS] then inputBuffer s else inputBuffer s @ c),
       orchestratorTerminal := Some (p\<lparr>written := written p @ [c]\<rparr>)\<rparr>"
  using assms
  by (auto simp: priv_handleTerminalInput_def Let_def write_or_catch_def pty_write_def)

lemma unterminated_chunks:
  assumes "orchestratorTerminal s = Some p" and "\<not> write_throws p"
    and "\<forall>c\<in>set cs. CR \<notin> set c \<and> LF \<notin> set c"
  shows "foldl (priv_handleTerminalInput exec) s cs =
     s\<lparr>inputBuffer := inputBuffer s @ concat (filter (\<lambda>c. c \<noteq> [DEL] \<and> c \<noteq> [BS]) cs),
       orchestratorTerminal := Some (p\<lparr>written := written p @ cs\<rparr>)\<rparr>"
  using assms
proof (induction cs arbitrary: s p)
  case Nil
  then show ?case by simp
next
  case (Cons c cs)
  let ?s1 = "priv_handleTerminalInput exec s c"
  have s1: "?s1 = s\<lparr>inputBuffer := (if c = [DEL] \<or> c = [BS] then inputBuffer s else inputBuffer s @ c),
       orchestratorTerminal := Some (p\<lparr>written := written p @ [c]\<rparr>)\<rparr>"
    using Cons.prems by (intro unterminated_chunk) auto
  have "foldl (priv_handleTerminalInput exec) ?s1 cs =
     ?s1\<lparr>inputBuffer := inputBuffer ?s1 @ concat (filter (\<lambda>c. c \<noteq> [DEL] \<and> c \<noteq> [BS]) cs),
       orchestratorTerminal := Some ((p\<lparr>written := written p @ [c]\<rparr>)\<lparr>written := written (p\<lparr>written := written p @ [c]\<rparr>) @ cs\<rparr>)\<rparr>"
    using Cons.prems by (intro Cons.IH) (auto simp: s1)
  then show ?case by (simp add: s1)
qed

lemma terminated_chunk:
  assumes "orchestratorTerminal s = Some p" and "\<not> write_throws p"
    and "CR \<in> set data \<or> LF \<in> set data"
  shows "priv_handleTerminalInput exec s data =
     (let line = trim (inputBuffer s @ data) in
      if toLowerCase (takeWhile (\<lambda>c. c \<noteq> SP) line) \<in> set orchestratorCommands
      then s\<lparr>inputBuffer := [],
             orchestratorTerminal :=
               Some (p\<lparr>written := written p @ [line @ [CR, LF]] @ exec line\<rparr>),
             dispatched := dispatched s @ [line],
             awaiting := awaiting s @ [line]\<rparr>
      else s\<lparr>inputBuffer := [],
             orchestratorTerminal := Some (p\<lparr>written := written p @ [data]\<rparr>)\<rparr>)"
proof -
  obtain w ws where sp: "split_on SP (trim (inputBuffer s @ data)) = w # ws"
    using split_on_not_Nil by (cases "split_on SP (trim (inputBuffer s @ data))") auto
  have w: "w = takeWhile (\<lambda>c. c \<noteq> SP) (trim (inputBuffer s @ data))"
    using hd_split_on [of SP "trim (inputBuffer s @ data)"] sp by simp
  show ?thesis
    using assms sp w
    by (auto simp: priv_handleTerminalInput_def Let_def write_or_catch_def pty_write_def)
qed

lemma first_part_no_backslash: "CHR 0x5C \<notin> set cs \<Longrightarrow> first_part cs = cs"
  by (induction cs rule: first_part.induct) auto

lemma trim_no_white_space: "\<forall>c \<in> set cs. \<not> is_white_space c \<Longrightarrow> trim cs = cs"
proof -
  assume a: "\<forall>c \<in> set cs. \<not> is_white_space c"
  have d: "dropWhile is_white_space xs = xs" if "\<forall>c \<in> set xs. \<not> is_white_space c" for xs
    using that by (cases xs) auto
  have "dropWhile is_white_space cs = cs" using a by (rule d)
  moreover have "dropWhile is_white_space (rev cs) = rev cs" using a by (intro d) simp
  ultimately show ?thesis by (simp add: trim_def)
qed

lemma lower_char_plain:
  assumes "\<not> is_white_space (lower_char c)" and "lower_char c \<noteq> CHR 0x5C"
  shows "\<not> is_white_space c \<and> c \<noteq> CHR 0x5C"
  using assms
  by (cases "is_upper c") (auto simp: lower_char_def is_upper_def is_white_space_def Let_def)

lemma table_words_plain:
  "w \<in> set orchestratorCommands \<Longrightarrow> \<forall>c \<in> set w. \<not> is_white_space c \<and> c \<noteq> CHR 0x5C"
  by (auto simp: orchestratorCommands_def is_white_space_def)

lemma single_word_plain:
  assumes "toLowerCase line \<in> set orchestratorCommands"
  shows "trim line = line \<and> first_part line = line"
proof -
  have "\<forall>c \<in> set line. \<not> is_white_space c \<and> c \<noteq> CHR 0x5C"
  proof
    fix c assume "c \<in> set line"
    then have "lower_char c \<in> set (toLowerCase line)" by (simp add: toLowerCase_def)
    then have "\<not> is_white_space (lower_char c) \<and> lower_char c \<noteq> CHR 0x5C"
      using table_words_plain [OF assms] by blast
    then show "\<not> is_white_space c \<and> c \<noteq> CHR 0x5C" using lower_char_plain by blast
  qed
  then show ?thesis
    using trim_no_white_space [of line] first_part_no_backslash [of line] by blast
qed

lemma single_word_selects_action:
  assumes "toLowerCase line \<in> set orchestratorCommands" and "toLowerCase line \<noteq> ''destroy''"
  shows "command_branch line \<noteq> PassCommandToTerminal"
proof -
  show ?thesis
    using assms single_word_plain [OF assms(1)]
    by (auto simp: command_branch_def Let_def orchestratorCommands_def)
qed

text \<open>
  Claim C1, as the code has it. The control terminal is set and its process accepts
  writes; chunks without a line terminator are followed by a chunk \<open>data\<close> that contains
  one. If none of the earlier chunks is a lone backspace or delete code, the buffer then
  holds what it held before followed by these chunks in order. The buffer and \<open>data\<close>,
  joined and trimmed, are the line; its text before the first space, in lower case, is
  looked up in the interceptor's table \<^const>\<open>orchestratorCommands\<close>. If it is found, the
  line is passed to the orchestrator command dispatcher, and when the line is a single
  word of the table other than \<open>destroy\<close> the dispatcher selects one of its actions for
  it. If it is not found, every chunk, the terminating one included, has been written
  to the process as received and in order, nothing has been dispatched, and the buffer
  is empty.
\<close>

theorem C1_line_classified_by_interceptor_table:
  assumes "orchestratorTerminal s = Some p" and "\<not> write_throws p"
    and "\<forall>c\<in>set cs. CR \<notin> set c \<and> LF \<notin> set c"
    and "CR \<in> set data \<or> LF \<in> set data"
  shows "((\<forall>c\<in>set cs. c \<noteq> [DEL] \<and> c \<noteq> [BS]) \<longrightarrow>
            inputBuffer (foldl (priv_handleTerminalInput exec) s cs) = inputBuffer s @ concat cs)
     \<and> (if toLowerCase (takeWhile (\<lambda>c. c \<noteq> SP)
               (trim (inputBuffer (foldl (priv_handleTerminalInput exec) s cs) @ data)))
            \<in> set orchestratorCommands
         then dispatched (foldl (priv_handleTerminalInput exec) s (cs @ [data])) =
                dispatched s
                  @ [trim (inputBuffer (foldl (priv_handleTerminalInput exec) s cs) @ data)]
              \<and> (toLowerCase
                    (trim (inputBuffer (foldl (priv_handleTerminalInput exec) s cs) @ data))
                    \<in> set orchestratorCommands - {''destroy''} \<longrightarrow>
                  command_branch
                    (trim (inputBuffer (foldl (priv_handleTerminalInput exec) s cs) @ data))
                    \<noteq> PassCommandToTerminal)
         else foldl (priv_handleTerminalInput exec) s (cs @ [data]) =
                s\<lparr>inputBuffer := [],
                  orchestratorTerminal := Some (p\<lparr>written := written p @ cs @ [data]\<rparr>)\<rparr>)"
proof -
  let ?s1 = "foldl (priv_handleTerminalInput exec) s cs"
  have s1: "?s1 = s\<lparr>inputBuffer := inputBuffer s @ concat (filter (\<lambda>c. c \<noteq> [DEL] \<and> c \<noteq> [BS]) cs),
       orchestratorTerminal := Some (p\<lparr>written := written p @ cs\<rparr>)\<rparr>"
    using assms(1-3) by (rule unterminated_chunks)
  have f: "(\<forall>c\<in>set cs. c \<noteq> [DEL] \<and> c \<noteq> [BS]) \<longrightarrow>
      filter (\<lambda>c. c \<noteq> [DEL] \<and> c \<noteq> [BS]) cs = cs"
    by (simp add: filter_id_conv)
  have t: "priv_handleTerminalInput exec ?s1 data =
     (let line = trim (inputBuffer ?s1 @ data) in
      if toLowerCase (takeWhile (\<lambda>c. c \<noteq> SP) line) \<in> set orchestratorCommands
      then ?s1\<lparr>inputBuffer := [],
             orchestratorTerminal :=
               Some ((p\<lparr>written := written p @ cs\<rparr>)\<lparr>written := written (p\<lparr>written := written p @ cs\<rparr>) @ [line @ [CR, LF]] @ exec line\<rparr>),
             dispatched := dispatched ?s1 @ [line],
             awaiting := awaiting ?s1 @ [line]\<rparr>
      else ?s1\<lparr>inputBuffer := [],
             orchestratorTerminal := Some ((p\<lparr>written := written p @ cs\<rparr>)\<lparr>written := written (p\<lparr>written := written p @ cs\<rparr>) @ [data]\<rparr>)\<rparr>)"
    using assms(2,4) by (intro terminated_chunk) (auto simp: s1)
  have b: "inputBuffer ?s1 = inputBuffer s @ concat (filter (\<lambda>c. c \<noteq> [DEL] \<and> c \<noteq> [BS]) cs)"
    and d: "dispatched ?s1 = dispatched s"
    by (simp_all add: s1)
  show ?thesis
  proof (intro conjI)
    show "(\<forall>c\<in>set cs. c \<noteq> [DEL] \<and> c \<noteq> [BS]) \<longrightarrow> inputBuffer ?s1 = inputBuffer s @ concat cs"
      using f b by simp
    show "if toLowerCase (takeWhile (\<lambda>c. c \<noteq> SP) (trim (inputBuffer ?s1 @ data)))
            \<in> set orchestratorCommands
         then dispatched (foldl (priv_handleTerminalInput exec) s (cs @ [data])) =
                dispatched s @ [trim (inputBuffer ?s1 @ data)]
              \<and> (toLowerCase (trim (inputBuffer ?s1 @ data))
                    \<in> set orchestratorCommands - {''destroy''} \<longrightarrow>
                  command_branch (trim (inputBuffer ?s1 @ data)) \<noteq> PassCommandToTerminal)
         else foldl (priv_handleTerminalInput exec) s (cs @ [data]) =
                s\<lparr>inputBuffer := [],
                  orchestratorTerminal := Some (p\<lparr>written := written p @ cs @ [data]\<rparr>)\<rparr>"
    proof (cases "toLowerCase (takeWhile (\<lambda>c. c \<noteq> SP) (trim (inputBuffer ?s1 @ data)))
            \<in> set orchestratorCommands")
      case True
      have "dispatched (foldl (priv_handleTerminalInput exec) s (cs @ [data])) =
                dispatched s @ [trim (inputBuffer ?s1 @ data)]"
        using True t d by (simp add: Let_def)
      moreover have "toLowerCase (trim (inputBuffer ?s1 @ data))
                    \<in> set orchestratorCommands - {''destroy''} \<longrightarrow>
                  command_branch (trim (inputBuffer ?s1 @ data)) \<noteq> PassCommandToTerminal"
        using single_word_selects_action [of "trim (inputBuffer ?s1 @ data)"] by simp
      ultimately show ?thesis using True by simp
    next
      case False
      have "priv_handleTerminalInput exec ?s1 data =
          ?s1\<lparr>inputBuffer := [],
             orchestratorTerminal := Some ((p\<lparr>written := written p @ cs\<rparr>)\<lparr>written := written (p\<lparr>written := written p @ cs\<rparr>) @ [data]\<rparr>)\<rparr>"
        using t False by (simp add: Let_def)
      also have "\<dots> = s\<lparr>inputBuffer := [],
                  orchestratorTerminal := Some (p\<lparr>written := written p @ cs @ [data]\<rparr>)\<rparr>"
        by (subst s1) simp
      finally show ?thesis using False by simp
    qed
  qed
qed

text \<open>
  Claim C1, witness: \<open>ls\<close> typed key by key and ended with a carriage return reaches the
  process chunk by chunk and nothing is dispatched; \<open>status\<close>, sent in two chunks and
  ended the same way, is passed to the dispatcher, which selects an action for it.
\<close>

theorem C1_witness:
  "orchestratorTerminal orchestrator_ready = Some pty_fresh \<and> \<not> write_throws pty_fresh
   \<and> (CR \<in> set [CR] \<or> LF \<in> set [CR])
   \<and> foldl (priv_handleTerminalInput no_writes) orchestrator_ready [''l'', ''s'', [CR]] =
       orchestrator_ready\<lparr>orchestratorTerminal := Some (pty_fresh\<lparr>written := [''l'', ''s'', [CR]]\<rparr>)\<rparr>
   \<and> inputBuffer (foldl (priv_handleTerminalInput no_writes) orchestrator_ready
         [''sta'', ''tus'']) = ''status''
   \<and> dispatched (foldl (priv_handleTerminalInput no_writes) orchestrator_ready
         [''sta'', ''tus'', [CR]]) = [''status'']
   \<and> command_branch ''status'' \<noteq> PassCommandToTerminal"
  using C1_line_classified_by_interceptor_table [of orchestrator_ready pty_fresh "[''l'', ''s'']" "[CR]" no_writes]
    C1_line_classified_by_interceptor_table [of orchestrator_ready pty_fresh "[''sta'', ''tus'']" "[CR]" no_writes]
  by (simp add: interceptor_defs js_string_defs)

text \<open>
  Claim C1, as stated, fails. \<open>claude\<close> is in the directive vocabulary of the
  specification but not in the interceptor's table: the line \<open>claude\<close> is written to the
  process as received and nothing is dispatched. The first token ends at a space, not at
  any white space: \<open>status\<close>, a tab and \<open>now\<close> is written to the process as received.
\<close>

theorem C1_counterexample:
  "''claude'' \<in> set spec_directive_vocabulary
   \<and> priv_handleTerminalInput no_writes orchestrator_ready (''claude'' @ [CR]) =
     orchestrator_ready\<lparr>orchestratorTerminal := Some (pty_fresh\<lparr>written := [''claude'' @ [CR]]\<rparr>)\<rparr>
   \<and> ''status'' \<in> set spec_directive_vocabulary
   \<and> priv_handleTerminalInput no_writes orchestrator_ready (''status'' @ [CHR 0x09] @ ''now'' @ [CR]) =
     orchestrator_ready\<lparr>orchestratorTerminal :=
        Some (pty_fresh\<lparr>written := [''status'' @ [CHR 0x09] @ ''now'' @ [CR]]\<rparr>)\<rparr>"
  by (simp add: interceptor_defs js_string_defs spec_directive_vocabulary_def)

text \<open>
  Two observations on the directive path. The echo and the prompt are written to the
  process with \<open>ptyProcess.write\<close>, the call that carries client input. The dispatcher
  splits the command at \<open>/\\s+/\<close>, so a directive followed by arguments is its own first
  part and falls to the default branch.
\<close>

lemma echo_and_prompt_are_process_input:
  "priv_handleTerminalInput no_writes orchestrator_ready (''status'' @ [CR, LF]) =
     orchestrator_ready\<lparr>orchestratorTerminal :=
        Some (pty_fresh\<lparr>written := [''status'' @ [CR, LF]]\<rparr>),
        dispatched := [''status''], awaiting := [''status'']\<rparr>
   \<and> priv_handleTerminalInput_resumed
       (priv_handleTerminalInput no_writes orchestrator_ready (''status'' @ [CR, LF])) =
     orchestrator_ready\<lparr>orchestratorTerminal :=
        Some (pty_fresh\<lparr>written := [''status'' @ [CR, LF], ''[Orchestrator]$ '']\<rparr>),
        dispatched := [''status'']\<rparr>"
  by (simp add: interceptor_defs js_string_defs)

lemma directive_with_arguments_not_recognized:
  "dispatched (priv_handleTerminalInput no_writes orchestrator_ready (''spawn test'' @ [CR])) =
     [''spawn test'']
   \<and> command_branch ''spawn test'' = PassCommandToTerminal
   \<and> command_branch ''status'' = HandleStatus"
  by (simp add: interceptor_defs js_string_defs command_branch_def)

text \<open>
  Claim C8 fails at the backspace: the chunk is appended to the buffer before it is
  examined, so what \<open>slice(0, -1)\<close> removes is the backspace code itself. With \<open>ab\<close> in
  the buffer, a lone delete code (0x7F) or backspace code (0x08) leaves \<open>ab\<close> in the
  buffer, where the claim has \<open>a\<close>.
\<close>

theorem C8_backspace_leaves_buffer:
  "priv_handleTerminalInput no_writes (orchestrator_ready\<lparr>inputBuffer := ''ab''\<rparr>) [DEL] =
     orchestrator_ready\<lparr>inputBuffer := ''ab'',
        orchestratorTerminal := Some (pty_fresh\<lparr>written := [[DEL]]\<rparr>)\<rparr>
   \<and> priv_handleTerminalInput no_writes (orchestrator_ready\<lparr>inputBuffer := ''ab''\<rparr>) [BS] =
     orchestrator_ready\<lparr>inputBuffer := ''ab'',
        orchestratorTerminal := Some (pty_fresh\<lparr>written := [[BS]]\<rparr>)\<rparr>"
  by (simp add: interceptor_defs)

lemma buffer_cleared:
  assumes "CR \<in> set data \<or> LF \<in> set data" and "orchestratorTerminal s = Some p"
  shows "inputBuffer (priv_handleTerminalInput exec s data) = []"
  using assms
  by (auto simp: priv_handleTerminalInput_def Let_def split: list.splits sum.splits)

lemma resumed_keeps_buffer:
  "inputBuffer (priv_handleTerminalInput_resumed s) = inputBuffer s"
  by (simp add: priv_handleTerminalInput_resumed_def Let_def split: list.splits option.splits)

lemma guard_invariant_step:
  assumes "orchestratorTerminal s = None \<longrightarrow> inputBuffer s = []"
  shows "orchestratorTerminal (priv_handleTerminalInput exec s data) = None \<longrightarrow>
         inputBuffer (priv_handleTerminalInput exec s data) = []"
  using assms
  by (auto simp: priv_handleTerminalInput_def Let_def write_or_catch_def caught_def
      split: list.splits sum.splits option.splits)

lemma guard_invariant_resumed:
  assumes "orchestratorTerminal s = None \<longrightarrow> inputBuffer s = []"
  shows "orchestratorTerminal (priv_handleTerminalInput_resumed s) = None \<longrightarrow>
         inputBuffer (priv_handleTerminalInput_resumed s) = []"
  using assms
  by (auto simp: priv_handleTerminalInput_resumed_def Let_def write_or_catch_def caught_def
      split: list.splits sum.splits option.splits)

lemma reachable_guard_invariant:
  "reachable exec s \<Longrightarrow> orchestratorTerminal s = None \<longrightarrow> inputBuffer s = []"
proof (induction rule: reachable.induct)
  case r_init
  then show ?case by (simp add: orchestrator_init_def)
next
  case (r_setup s found)
  then show ?case by (cases found) (auto simp: handleOrchestratorInit_def)
next
  case (r_input s data)
  then show ?case by (intro guard_invariant_step)
next
  case (r_resumed s)
  then show ?case by (intro guard_invariant_resumed)
next
  case (r_process s p p')
  then show ?case by simp
qed

text \<open>
  Claim C10, as the code has it. In every state the interceptor can reach, a chunk that
  contains a carriage return or a line feed leaves the buffer empty when the handler
  returns or, on the directive path, suspends at its \<open>await\<close>, whether or not a write to
  the process raised. The rest of a suspended invocation does not change the buffer. So
  the buffer is empty when the handler finishes, provided no other chunk was handled
  while it was suspended.
\<close>

theorem C10_buffer_empty_at_return_or_await:
  assumes "reachable exec s" and "CR \<in> set data \<or> LF \<in> set data"
  shows "inputBuffer (priv_handleTerminalInput exec s data) = []
     \<and> inputBuffer (priv_handleTerminalInput_resumed s') = inputBuffer s'
     \<and> inputBuffer (priv_handleTerminalInput_resumed (priv_handleTerminalInput exec s data)) = []"
proof -
  have e: "inputBuffer (priv_handleTerminalInput exec s data) = []"
  proof (cases "orchestratorTerminal s")
    case None
    then have "priv_handleTerminalInput exec s data = s"
      by (simp add: priv_handleTerminalInput_def)
    then show ?thesis using reachable_guard_invariant [OF assms(1)] None by simp
  next
    case (Some p)
    then show ?thesis using assms(2) by (intro buffer_cleared)
  qed
  then show ?thesis by (simp add: resumed_keeps_buffer)
qed

text \<open>
  Claim C10, witness: the process raises on every write; \<open>sta\<close> is buffered, and
  \<open>tus\<close> with a carriage return empties the buffer.
\<close>

theorem C10_witness:
  "reachable no_writes
     (priv_handleTerminalInput no_writes
        (handleOrchestratorInit (Some pty_broken) orchestrator_init) ''sta'')
   \<and> (CR \<in> set (''tus'' @ [CR]) \<or> LF \<in> set (''tus'' @ [CR]))
   \<and> inputBuffer (priv_handleTerminalInput no_writes
        (handleOrchestratorInit (Some pty_broken) orchestrator_init) ''sta'') = ''sta''
   \<and> inputBuffer (priv_handleTerminalInput no_writes
       (priv_handleTerminalInput no_writes
          (handleOrchestratorInit (Some pty_broken) orchestrator_init) ''sta'')
       (''tus'' @ [CR])) = []"
proof -
  have r: "reachable no_writes
     (priv_handleTerminalInput no_writes
        (handleOrchestratorInit (Some pty_broken) orchestrator_init) ''sta'')"
    by (intro reachable.intros)
  have t: "CR \<in> set (''tus'' @ [CR]) \<or> LF \<in> set (''tus'' @ [CR])" by simp
  have b: "inputBuffer (priv_handleTerminalInput no_writes
        (handleOrchestratorInit (Some pty_broken) orchestrator_init) ''sta'') = ''sta''"
    by (simp add: interceptor_defs handleOrchestratorInit_def orchestrator_init_def pty_broken_def)
  show ?thesis
    using r t b C10_buffer_empty_at_return_or_await [OF r t] by simp
qed

text \<open>
  Claim C10, as stated, fails: \<open>status\<close> with a carriage return suspends the handler at
  its \<open>await\<close>; \<open>ls\<close> arrives before the dispatcher has settled and is buffered; when
  the first invocation finishes, the buffer holds \<open>ls\<close>.
\<close>

theorem C10_counterexample:
  "priv_handleTerminalInput_resumed
     (priv_handleTerminalInput no_writes
        (priv_handleTerminalInput no_writes orchestrator_ready (''status'' @ [CR])) ''ls'') =
     orchestrator_ready\<lparr>inputBuffer := ''ls'',
        orchestratorTerminal :=
          Some (pty_fresh\<lparr>written := [''status'' @ [CR, LF], ''ls'', ''[Orchestrator]$ '']\<rparr>),
        dispatched := [''status'']\<rparr>"
  by (simp add: interceptor_defs js_string_defs)

section \<open>Properties of the session registry\<close>

lemma keys_update [simp]: "keys (AList.update k v al) = insert k (keys al)"
  by (simp add: keys_def dom_update)

lemma keys_delete [simp]: "keys (AList.delete k al) = keys al - {k}"
  by (auto simp: keys_def AList.delete_eq)

lemma keys_Nil [simp]: "keys [] = {}"
  by (simp add: keys_def)

lemma map_of_keys: "map_of al k = Some v \<Longrightarrow> k \<in> keys al"
  by (auto simp: keys_def dest: map_of_SomeD intro: rev_image_eqI)

lemma map_of_None_keys: "map_of al k = None \<longleftrightarrow> k \<notin> keys al"
  by (simp add: keys_def map_of_eq_None_iff)

lemma set_delete: "set (AList.delete k al) = {x \<in> set al. fst x \<noteq> k}"
  by (auto simp: AList.delete_eq)

lemma inv_new: "inv (manager_new maxT)"
  by (simp add: inv_def manager_new_def)

lemma inv_reset:
  assumes "inv m" and "tid \<in> keys (terminals m)"
  shows "inv (priv_resetTerminalTimeout tid m)"
  using assms
  by (auto simp: inv_def priv_resetTerminalTimeout_def clearTimeout_def Let_def set_delete
      update_conv' split: option.splits)

lemma inv_terminals_update:
  assumes "inv m"
  shows "inv (m\<lparr>terminals := AList.update tid info (terminals m)\<rparr>)"
  using assms by (auto simp: inv_def)

lemma create_process_cases:
  "(\<exists>e. priv_createTerminalProcess env ws tid n msg m = Inl e)
   \<or> (\<exists>info out. priv_createTerminalProcess env ws tid n msg m =
         Inr (priv_resetTerminalTimeout tid
                (m\<lparr>terminals := AList.update tid info (terminals m),
                   spawned := spawned m @ [''claude'']\<rparr>), out))"
proof (cases "isClaudeAgent_of msg")
  case None
  then show ?thesis by (simp add: priv_createTerminalProcess_def)
next
  case (Some flag)
  show ?thesis
  proof (cases "mkdir_raises env")
    case None
    then show ?thesis using Some
      by (cases "spawn_result env") (auto simp: priv_createTerminalProcess_def Let_def)
  next
    case (Some e)
    then show ?thesis using \<open>isClaudeAgent_of msg = Some flag\<close>
      by (simp add: priv_createTerminalProcess_def)
  qed
qed

lemma inv_create_process:
  assumes "inv m" and "priv_createTerminalProcess env ws tid n msg m = Inr (m', out)"
  shows "inv m'"
proof -
  from assms(2) create_process_cases [of env ws tid n msg m] obtain info where
    m': "m' = priv_resetTerminalTimeout tid
            (m\<lparr>terminals := AList.update tid info (terminals m),
               spawned := spawned m @ [''claude'']\<rparr>)"
    by auto
  have "inv (m\<lparr>terminals := AList.update tid info (terminals m),
               spawned := spawned m @ [''claude'']\<rparr>)"
    using assms(1) by (auto simp: inv_def)
  then show ?thesis unfolding m' by (rule inv_reset) simp
qed

lemma inv_create: "inv m \<Longrightarrow> inv (fst (createTerminal env uuid ws msg m))"
  by (auto simp: createTerminal_def Let_def split: sum.splits dest: inv_create_process)

lemma inv_input: "inv m \<Longrightarrow> inv (handleTerminalInput tid data m)"
  by (auto simp: handleTerminalInput_def split: option.splits sum.splits
      intro!: inv_reset inv_terminals_update)

lemma inv_command: "inv m \<Longrightarrow> inv (fst (handleTerminalCommand req tid command m))"
  by (auto simp: handleTerminalCommand_def split: option.splits sum.splits
      intro!: inv_reset inv_terminals_update)

lemma inv_removed:
  assumes "inv m"
  shows "inv (m\<lparr>terminals := AList.delete tid (terminals m),
               pendingTimers :=
                 (case map_of (terminalTimeouts m) tid of
                    None \<Rightarrow> pendingTimers m
                  | Some k \<Rightarrow> AList.delete k (pendingTimers m)),
               terminalTimeouts := AList.delete tid (terminalTimeouts m),
               agentHandoffs := AList.delete tid (agentHandoffs m)\<rparr>)"
  using assms
  by (auto simp: inv_def set_delete delete_conv' split: option.splits)

lemma inv_destroy: "inv m \<Longrightarrow> inv (fst (handleDestroyTerminal req tid m))"
  using inv_removed [of m tid]
  by (auto simp: handleDestroyTerminal_def clearTimeout_def Let_def
      split: option.splits sum.splits)

lemma inv_exit: "inv m \<Longrightarrow> inv (fst (onExit tid exitCode signal m))"
  using inv_removed [of m tid]
  by (auto simp: onExit_def clearTimeout_def Let_def split: option.splits)

lemma inv_handoff: "inv m \<Longrightarrow> inv (fst (handoffToAgent tid a ctx m))"
  by (auto simp: handoffToAgent_def Let_def inv_def dest: map_of_keys split: option.splits)

lemma inv_data: "inv m \<Longrightarrow> inv (fst (onData tid data m))"
  using inv_handoff
  by (auto simp: onData_def priv_monitorAgentOutput_def Let_def
      split: option.splits prod.splits intro!: inv_terminals_update)

lemma inv_timer_deleted:
  assumes "inv m"
  shows "inv (m\<lparr>pendingTimers := AList.delete h (pendingTimers m)\<rparr>)"
  using assms by (auto simp: inv_def set_delete)

lemma inv_callback:
  assumes "inv m" and "\<forall>(h, d, t) \<in> set (pendingTimers m). t \<noteq> tid"
  shows "inv (timeout_callback tid m)"
  using assms
  by (auto simp: timeout_callback_def inv_def set_delete delete_conv'
      split: option.splits sum.splits)

lemma inv_expire:
  assumes "inv m"
  shows "inv (fire_timer h m)"
proof (cases "map_of (pendingTimers m) h")
  case None
  then show ?thesis using assms by (simp add: fire_timer_def)
next
  case (Some dt)
  obtain d tid where dt: "dt = (d, tid)" by (cases dt)
  have mem: "(h, d, tid) \<in> set (pendingTimers m)"
    using Some dt by (auto dest: map_of_SomeD)
  have own: "map_of (terminalTimeouts m) tid = Some h"
    using assms mem by (auto simp: inv_def)
  have "\<forall>(h', d', t) \<in> set (AList.delete h (pendingTimers m)). t \<noteq> tid"
  proof (clarify)
    fix h' d'
    assume "(h', d', tid) \<in> set (AList.delete h (pendingTimers m))"
    then have "(h', d', tid) \<in> set (pendingTimers m)" and "h' \<noteq> h"
      by (auto simp: set_delete)
    then have "map_of (terminalTimeouts m) tid = Some h'"
      using assms by (auto simp: inv_def)
    with own \<open>h' \<noteq> h\<close> show False by simp
  qed
  then have "inv (timeout_callback tid (m\<lparr>pendingTimers := AList.delete h (pendingTimers m)\<rparr>))"
    using inv_timer_deleted [OF assms, of h] by (intro inv_callback) auto
  then show ?thesis using assms Some dt by (simp add: fire_timer_def)
qed

lemma inv_step: "inv m \<Longrightarrow> inv (step e m)"
proof (cases e)
  case (Fault tid w k)
  then show "inv m \<Longrightarrow> inv (step e m)"
    by (auto split: option.splits intro!: inv_terminals_update)
next
  case (Tick n)
  then show "inv m \<Longrightarrow> inv (step e m)" by (auto simp: inv_def)
qed (simp_all add: inv_create inv_input inv_command inv_destroy inv_exit inv_handoff
    inv_data inv_expire)

lemma inv_run: "inv m \<Longrightarrow> inv (run es m)"
  unfolding run_def by (induction es arbitrary: m) (simp_all add: inv_step)


lemma length_update:
  "length (AList.update k v al) = (if k \<in> keys al then length al else Suc (length al))"
  using update_keys [of k v al, THEN arg_cong, of length]
  by (auto simp: keys_def split: if_splits)

lemma length_update_present: "map_of al k = Some x \<Longrightarrow> length (AList.update k v al) = length al"
  by (simp add: length_update map_of_keys)

lemma reset_frame [simp]:
  "terminals (priv_resetTerminalTimeout tid m) = terminals m"
  "maxTerminals (priv_resetTerminalTimeout tid m) = maxTerminals m"
  "agentHandoffs (priv_resetTerminalTimeout tid m) = agentHandoffs m"
  "clock (priv_resetTerminalTimeout tid m) = clock m"
  "spawned (priv_resetTerminalTimeout tid m) = spawned m"
  by (simp_all add: priv_resetTerminalTimeout_def clearTimeout_def Let_def split: option.splits)

lemma create_at_capacity:
  "int (length (terminals m)) \<ge> maxTerminals m \<Longrightarrow>
   createTerminal env uuid ws msg m =
     (m, [TerminalCreated (msg_id msg) False None (Some (MaxTerminalsReached (maxTerminals m)))])"
  by (simp add: createTerminal_def)

lemma create_bound:
  assumes "int (length (terminals m)) \<le> max 0 (maxTerminals m)"
  shows "int (length (terminals (fst (createTerminal env uuid ws msg m)))) \<le> max 0 (maxTerminals m)
       \<and> maxTerminals (fst (createTerminal env uuid ws msg m)) = maxTerminals m"
proof -
  consider (e) e where "priv_createTerminalProcess env ws (''terminal-'' @ uuid) (length (terminals m) + 1) msg m = Inl e"
    | (r) info out where "priv_createTerminalProcess env ws (''terminal-'' @ uuid) (length (terminals m) + 1) msg m =
         Inr (priv_resetTerminalTimeout (''terminal-'' @ uuid)
                (m\<lparr>terminals := AList.update (''terminal-'' @ uuid) info (terminals m),
                   spawned := spawned m @ [''claude'']\<rparr>), out)"
    using create_process_cases by blast
  then show ?thesis
  proof cases
    case e
    then show ?thesis using assms by (simp add: createTerminal_def Let_def)
  next
    case r
    then show ?thesis using assms
      by (auto simp: createTerminal_def Let_def length_update)
  qed
qed

lemma step_bound:
  assumes "int (length (terminals m)) \<le> max 0 (maxTerminals m)"
  shows "int (length (terminals (step e m))) \<le> max 0 (maxTerminals m)
       \<and> maxTerminals (step e m) = maxTerminals m"
proof (cases e)
  case (Create env uuid ws msg)
  then show ?thesis using create_bound [OF assms] by simp
next
  case (TermInput tid data)
  then show ?thesis using assms
    by (auto simp: handleTerminalInput_def length_update_present split: option.splits sum.splits)
next
  case (TermCommand req tid command)
  then show ?thesis using assms
    by (auto simp: handleTerminalCommand_def length_update_present split: option.splits sum.splits)
next
  case (Destroy req tid)
  then show ?thesis using assms length_delete_le [of tid "terminals m"]
    by (auto simp: handleDestroyTerminal_def clearTimeout_def Let_def split: option.splits sum.splits)
next
  case (Handoff tid a ctx)
  then show ?thesis using assms
    by (auto simp: handoffToAgent_def Let_def length_update_present update_conv' split: option.splits)
next
  case (Data tid data)
  then show ?thesis using assms
    by (auto simp: onData_def priv_monitorAgentOutput_def handoffToAgent_def Let_def
        length_update_present update_conv' split: option.splits prod.splits)
next
  case (Exit tid c s)
  then show ?thesis using assms length_delete_le [of tid "terminals m"]
    by (auto simp: onExit_def clearTimeout_def Let_def split: option.splits)
next
  case (Expire h)
  have "\<And>t. int (length (AList.delete t (terminals m))) \<le> max 0 (maxTerminals m)"
    using assms length_delete_le [of _ "terminals m"] by (meson of_nat_mono order_trans)
  with Expire show ?thesis using assms
    by (auto simp: fire_timer_def timeout_callback_def
        split: option.splits sum.splits prod.splits)
next
  case (Tick n)
  then show ?thesis using assms by simp
next
  case (Fault tid w k)
  then show ?thesis using assms by (auto simp: length_update_present split: option.splits)
qed

lemma run_bound:
  assumes "int (length (terminals m)) \<le> max 0 (maxTerminals m)"
  shows "int (length (terminals (run es m))) \<le> max 0 (maxTerminals m)
       \<and> maxTerminals (run es m) = maxTerminals m"
  using assms unfolding run_def
proof (induction es arbitrary: m)
  case Nil
  then show ?case by simp
next
  case (Cons e es)
  have s: "int (length (terminals (step e m))) \<le> max 0 (maxTerminals (step e m))"
    and k: "maxTerminals (step e m) = maxTerminals m"
    using step_bound [OF Cons.prems, of e] by simp_all
  show ?case using Cons.IH [OF s] k by simp
qed

lemma create_not_local:
  assumes "int (length (terminals m)) < maxTerminals m"
    and "truthy (connectionType msg)" and "connectionType msg \<noteq> Some ''local''"
  shows "createTerminal env uuid ws msg m =
           (m, [TerminalCreated (msg_id msg) False None
                  (Some (ConnectionTypeNotImplemented (the (connectionType msg))))])"
  using assms by (simp add: createTerminal_def)

lemma create_mkdir_fails:
  assumes "int (length (terminals m)) < maxTerminals m"
    and "\<not> (truthy (connectionType msg) \<and> connectionType msg \<noteq> Some ''local'')"
    and "isClaudeAgent_of msg = Some flag" and "mkdir_raises env = Some e"
  shows "createTerminal env uuid ws msg m =
           (m, [TerminalCreated (msg_id msg) False None (Some (Thrown e))])"
  using assms by (auto simp: createTerminal_def priv_createTerminalProcess_def Let_def)

lemma create_spawn_fails:
  assumes "int (length (terminals m)) < maxTerminals m"
    and "\<not> (truthy (connectionType msg) \<and> connectionType msg \<noteq> Some ''local'')"
    and "isClaudeAgent_of msg = Some flag"
    and "mkdir_raises env = None" and "spawn_result env = Inl e"
  shows "createTerminal env uuid ws msg m =
           (m, [TerminalCreated (msg_id msg) False None (Some (Thrown e))])"
  using assms by (auto simp: createTerminal_def priv_createTerminalProcess_def Let_def)

lemma create_succeeds:
  assumes "int (length (terminals m)) < maxTerminals m"
    and "\<not> (truthy (connectionType msg) \<and> connectionType msg \<noteq> Some ''local'')"
    and "isClaudeAgent_of msg = Some flag"
    and "mkdir_raises env = None" and "spawn_result env = Inr p"
  shows "\<exists>m'.
           createTerminal env uuid ws msg m =
             (m', [TerminalCreated (msg_id msg) True
                     (Some (''terminal-'' @ uuid, length (terminals m) + 1,
                            created_name msg (length (terminals m) + 1), flag)) None])
         \<and> (\<exists>info. map_of (terminals m') (''terminal-'' @ uuid) = Some info
                    \<and> ptyProcess info = p
                    \<and> agentName info = created_name msg (length (terminals m) + 1)
                    \<and> isClaudeAgent info = flag)
         \<and> keys (terminals m') = insert (''terminal-'' @ uuid) (keys (terminals m))
         \<and> map_of (terminalTimeouts m') (''terminal-'' @ uuid) = Some (nextHandle m)
         \<and> (nextHandle m, clock m + thirty_minutes, ''terminal-'' @ uuid)
              \<in> set (pendingTimers m')
         \<and> spawned m' = spawned m @ [''claude'']"
  using assms
  by (auto simp: createTerminal_def priv_createTerminalProcess_def Let_def update_conv'
      priv_resetTerminalTimeout_def clearTimeout_def created_name_def split: option.splits)

text \<open>
  Claim C2, as the code has it. In every state the manager can reach from its
  construction, the registry holds at most the configured maximum (or none, when the
  maximum is negative). There, a \<open>terminal-create\<close> is answered as follows. When the
  registry is at the maximum: the error "Maximum number of terminals reached", and the
  manager is unchanged. When it is below the maximum and the request names a connection
  type other than \<open>local\<close>: the error "Connection type ... not yet implemented", and the
  manager is unchanged. When it is below the maximum, the request is local and for a
  Claude agent (its agent type is \<open>claude\<close>, or it lists MCP servers), and creating the
  workspace or spawning the process raises: that error, and the manager is unchanged.
  When both succeed: success, with the terminal's id, instance number, name and the value
  of \<open>isClaudeAgent\<close>; the new terminal is registered with its process, one more
  \<open>claude\<close> process has been spawned, and its timeout entry names a timer armed for
  thirty minutes later.
\<close>

theorem C2_create_capacity:
  assumes "m = run es (manager_new maxT)"
  shows "int (length (terminals m)) \<le> max 0 maxT
    \<and> (maxT \<le> int (length (terminals m)) \<longrightarrow>
         createTerminal env uuid ws msg m =
           (m, [TerminalCreated (msg_id msg) False None (Some (MaxTerminalsReached maxT))]))
    \<and> (int (length (terminals m)) < maxT
         \<and> truthy (connectionType msg) \<and> connectionType msg \<noteq> Some ''local'' \<longrightarrow>
         createTerminal env uuid ws msg m =
           (m, [TerminalCreated (msg_id msg) False None
                  (Some (ConnectionTypeNotImplemented (the (connectionType msg))))]))
    \<and> (int (length (terminals m)) < maxT
         \<and> \<not> (truthy (connectionType msg) \<and> connectionType msg \<noteq> Some ''local'')
         \<and> isClaudeAgent_of msg = Some flag
         \<and> (mkdir_raises env = Some e
             \<or> mkdir_raises env = None \<and> spawn_result env = Inl e) \<longrightarrow>
         createTerminal env uuid ws msg m =
           (m, [TerminalCreated (msg_id msg) False None (Some (Thrown e))]))
    \<and> (int (length (terminals m)) < maxT
         \<and> \<not> (truthy (connectionType msg) \<and> connectionType msg \<noteq> Some ''local'')
         \<and> isClaudeAgent_of msg = Some flag
         \<and> mkdir_raises env = None \<and> spawn_result env = Inr p \<longrightarrow>
         (\<exists>m'.
            createTerminal env uuid ws msg m =
              (m', [TerminalCreated (msg_id msg) True
                      (Some (''terminal-'' @ uuid, length (terminals m) + 1,
                             created_name msg (length (terminals m) + 1), flag)) None])
            \<and> (\<exists>info. map_of (terminals m') (''terminal-'' @ uuid) = Some info
                       \<and> ptyProcess info = p
                       \<and> agentName info = created_name msg (length (terminals m) + 1)
                       \<and> isClaudeAgent info = flag)
            \<and> keys (terminals m') = insert (''terminal-'' @ uuid) (keys (terminals m))
            \<and> map_of (terminalTimeouts m') (''terminal-'' @ uuid) = Some (nextHandle m)
            \<and> (nextHandle m, clock m + thirty_minutes, ''terminal-'' @ uuid)
                 \<in> set (pendingTimers m')
            \<and> spawned m' = spawned m @ [''claude'']))"
proof -
  have b: "int (length (terminals m)) \<le> max 0 maxT" and k: "maxTerminals m = maxT"
    using run_bound [of "manager_new maxT" es] assms by (simp_all add: manager_new_def)
  have c1: "maxT \<le> int (length (terminals m)) \<longrightarrow>
         createTerminal env uuid ws msg m =
           (m, [TerminalCreated (msg_id msg) False None (Some (MaxTerminalsReached maxT))])"
    using k create_at_capacity [of m env uuid ws msg] by simp
  have c2: "int (length (terminals m)) < maxT
         \<and> truthy (connectionType msg) \<and> connectionType msg \<noteq> Some ''local'' \<longrightarrow>
         createTerminal env uuid ws msg m =
           (m, [TerminalCreated (msg_id msg) False None
                  (Some (ConnectionTypeNotImplemented (the (connectionType msg))))])"
    using k create_not_local [of m msg env uuid ws] by simp
  have c3: "int (length (terminals m)) < maxT
         \<and> \<not> (truthy (connectionType msg) \<and> connectionType msg \<noteq> Some ''local'')
         \<and> isClaudeAgent_of msg = Some flag
         \<and> (mkdir_raises env = Some e
             \<or> mkdir_raises env = None \<and> spawn_result env = Inl e) \<longrightarrow>
         createTerminal env uuid ws msg m =
           (m, [TerminalCreated (msg_id msg) False None (Some (Thrown e))])"
    using k create_mkdir_fails [of m msg flag env e uuid ws]
      create_spawn_fails [of m msg flag env e uuid ws] by blast
  have c4: "int (length (terminals m)) < maxT
         \<and> \<not> (truthy (connectionType msg) \<and> connectionType msg \<noteq> Some ''local'')
         \<and> isClaudeAgent_of msg = Some flag
         \<and> mkdir_raises env = None \<and> spawn_result env = Inr p \<longrightarrow>
         (\<exists>m'.
            createTerminal env uuid ws msg m =
              (m', [TerminalCreated (msg_id msg) True
                      (Some (''terminal-'' @ uuid, length (terminals m) + 1,
                             created_name msg (length (terminals m) + 1), flag)) None])
            \<and> (\<exists>info. map_of (terminals m') (''terminal-'' @ uuid) = Some info
                       \<and> ptyProcess info = p
                       \<and> agentName info = created_name msg (length (terminals m) + 1)
                       \<and> isClaudeAgent info = flag)
            \<and> keys (terminals m') = insert (''terminal-'' @ uuid) (keys (terminals m))
            \<and> map_of (terminalTimeouts m') (''terminal-'' @ uuid) = Some (nextHandle m)
            \<and> (nextHandle m, clock m + thirty_minutes, ''terminal-'' @ uuid)
                 \<in> set (pendingTimers m')
            \<and> spawned m' = spawned m @ [''claude''])"
    using k create_succeeds [of m msg flag env p uuid ws] by simp
  show ?thesis
    by (intro conjI) (fact b c1 c2 c3 c4)+
qed

lemmas manager_defs = createTerminal_def priv_createTerminalProcess_def
  priv_resetTerminalTimeout_def clearTimeout_def created_name_def truthy_def
  manager_new_def thirty_minutes_def pty_write_def pty_kill_def
  handleTerminalInput_def handleTerminalCommand_def handleDestroyTerminal_def
  handoffToAgent_def onData_def onExit_def fire_timer_def timeout_callback_def
  priv_monitorAgentOutput_def or_else_def handoff_banner_def Let_def run_def
  isClaudeAgent_of_def

lemmas sample_defs = env_ok_def env_spawn_fails_def claude_request_def ssh_request_def
  pty_fresh_def pty_broken_def one_session_def worker_info_def mcp_request_def
  env_mkdir_fails_def

lemma one_session_run:
  "run [Create env_ok ''u1'' 7 claude_request] (manager_new maxT) =
     (if maxT \<le> 0 then manager_new maxT else one_session maxT)"
  by (simp add: manager_defs sample_defs)

text \<open>
  Claim C2, as stated, fails: with an empty registry and a maximum of 99, a request for
  connection type \<open>ssh\<close> is refused, and so is a request whose process cannot be spawned.
\<close>

theorem C2_counterexample:
  "int (length (terminals (manager_new 99))) < maxTerminals (manager_new 99)
   \<and> createTerminal env_ok ''u1'' 7 ssh_request (manager_new 99) =
       (manager_new 99,
        [TerminalCreated ''r1'' False None (Some (ConnectionTypeNotImplemented ''ssh''))])
   \<and> createTerminal env_spawn_fails ''u1'' 7 claude_request (manager_new 99) =
       (manager_new 99,
        [TerminalCreated ''r1'' False None (Some (Thrown (Error ''spawn failed'')))])"
  by (simp add: manager_defs sample_defs)

text \<open>
  Claim C2, witness. With a maximum of 1 the first request succeeds and the second is
  refused for capacity. With one terminal registered and a maximum of 99, a request for
  \<open>ssh\<close>, one whose workspace cannot be created and one whose process cannot be spawned
  are refused and leave the manager as it was; a request that lists an MCP server is
  answered with success, and \<open>isClaudeAgent\<close> is that list.
\<close>

theorem C2_witness:
  "one_session 1 = run [Create env_ok ''u1'' 7 claude_request] (manager_new 1)
   \<and> int (length (terminals (one_session 1))) = 1
   \<and> createTerminal env_ok ''u2'' 7 claude_request (one_session 1) =
       (one_session 1, [TerminalCreated ''r1'' False None (Some (MaxTerminalsReached 1))])
   \<and> one_session 99 = run [Create env_ok ''u1'' 7 claude_request] (manager_new 99)
   \<and> createTerminal env_ok ''u2'' 7 ssh_request (one_session 99) =
       (one_session 99,
        [TerminalCreated ''r1'' False None (Some (ConnectionTypeNotImplemented ''ssh''))])
   \<and> createTerminal env_mkdir_fails ''u2'' 7 claude_request (one_session 99) =
       (one_session 99, [TerminalCreated ''r1'' False None (Some (Thrown (Error ''EACCES'')))])
   \<and> createTerminal env_spawn_fails ''u2'' 7 claude_request (one_session 99) =
       (one_session 99,
        [TerminalCreated ''r1'' False None (Some (Thrown (Error ''spawn failed'')))])
   \<and> (\<exists>m'. createTerminal env_ok ''u2'' 7 mcp_request (one_session 99) =
              (m', [TerminalCreated ''r2'' True
                      (Some (''terminal-u2'', 2, ''claude-agent-2'',
                             ServerList [''filesystem''])) None])
            \<and> keys (terminals m') = {''terminal-u1'', ''terminal-u2''}
            \<and> map_of (terminalTimeouts m') ''terminal-u2'' = Some 1
            \<and> (1, 1800000, ''terminal-u2'') \<in> set (pendingTimers m')
            \<and> spawned m' = [''claude'', ''claude''])"
proof -
  have r1: "one_session 1 = run [Create env_ok ''u1'' 7 claude_request] (manager_new 1)"
    by (simp add: one_session_run)
  have r99: "one_session 99 = run [Create env_ok ''u1'' 7 claude_request] (manager_new 99)"
    by (simp add: one_session_run)
  have len: "int (length (terminals (one_session 1))) = 1"
    by (simp add: one_session_def)
  have len99: "length (terminals (one_session 99)) = 1"
    by (simp add: one_session_def)
  have cap: "createTerminal env_ok ''u2'' 7 claude_request (one_session 1) =
       (one_session 1, [TerminalCreated ''r1'' False None (Some (MaxTerminalsReached 1))])"
    using C2_create_capacity [OF r1, of env_ok "''u2''" 7 claude_request] len
    by (simp add: claude_request_def)
  have ssh: "createTerminal env_ok ''u2'' 7 ssh_request (one_session 99) =
       (one_session 99,
        [TerminalCreated ''r1'' False None (Some (ConnectionTypeNotImplemented ''ssh''))])"
    using C2_create_capacity [OF r99, of env_ok "''u2''" 7 ssh_request] len99
    by (simp add: ssh_request_def claude_request_def truthy_def)
  have mk: "createTerminal env_mkdir_fails ''u2'' 7 claude_request (one_session 99) =
       (one_session 99, [TerminalCreated ''r1'' False None (Some (Thrown (Error ''EACCES'')))])"
    using C2_create_capacity [OF r99, of env_mkdir_fails "''u2''" 7 claude_request
        IsTrue "Error ''EACCES''"] len99
    by (simp add: claude_request_def truthy_def env_mkdir_fails_def isClaudeAgent_of_def)
  have sp: "createTerminal env_spawn_fails ''u2'' 7 claude_request (one_session 99) =
       (one_session 99,
        [TerminalCreated ''r1'' False None (Some (Thrown (Error ''spawn failed'')))])"
    using C2_create_capacity [OF r99, of env_spawn_fails "''u2''" 7 claude_request
        IsTrue "Error ''spawn failed''"] len99
    by (simp add: claude_request_def truthy_def env_spawn_fails_def isClaudeAgent_of_def)
  have name: "created_name mcp_request 2 = ''claude-agent-2''"
    by code_simp
  have ok: "\<exists>m'. createTerminal env_ok ''u2'' 7 mcp_request (one_session 99) =
              (m', [TerminalCreated ''r2'' True
                      (Some (''terminal-u2'', 2, ''claude-agent-2'',
                             ServerList [''filesystem''])) None])
            \<and> keys (terminals m') = {''terminal-u1'', ''terminal-u2''}
            \<and> map_of (terminalTimeouts m') ''terminal-u2'' = Some 1
            \<and> (1, 1800000, ''terminal-u2'') \<in> set (pendingTimers m')
            \<and> spawned m' = [''claude'', ''claude'']"
  proof -
    have hyp: "int (length (terminals (one_session 99))) < 99
         \<and> \<not> (truthy (connectionType mcp_request)
               \<and> connectionType mcp_request \<noteq> Some ''local'')
         \<and> isClaudeAgent_of mcp_request = Some (ServerList [''filesystem''])
         \<and> mkdir_raises env_ok = None \<and> spawn_result env_ok = Inr pty_fresh"
      by (simp add: one_session_def mcp_request_def truthy_def env_ok_def
          isClaudeAgent_of_def)
    have vals: "msg_id mcp_request = ''r2''"
      "length (terminals (one_session 99)) + 1 = 2"
      "keys (terminals (one_session 99)) = {''terminal-u1''}"
      "nextHandle (one_session 99) = 1" "clock (one_session 99) + thirty_minutes = 1800000"
      "spawned (one_session 99) @ [''claude''] = [''claude'', ''claude'']"
      "''terminal-'' @ ''u2'' = ''terminal-u2''"
      by (simp_all add: one_session_def mcp_request_def thirty_minutes_def keys_def)
    note c = C2_create_capacity [OF r99, of env_ok "''u2''" 7 mcp_request
        "ServerList [''filesystem'']" _ pty_fresh,
        THEN conjunct2, THEN conjunct2, THEN conjunct2, THEN conjunct2, THEN mp, OF hyp]
    then obtain m' where
      m: "createTerminal env_ok ''u2'' 7 mcp_request (one_session 99) =
              (m', [TerminalCreated (msg_id mcp_request) True
                      (Some (''terminal-'' @ ''u2'', length (terminals (one_session 99)) + 1,
                             created_name mcp_request
                               (length (terminals (one_session 99)) + 1),
                             ServerList [''filesystem''])) None])"
      and k: "keys (terminals m') =
                insert (''terminal-'' @ ''u2'') (keys (terminals (one_session 99)))"
      and h: "map_of (terminalTimeouts m') (''terminal-'' @ ''u2'') =
                Some (nextHandle (one_session 99))"
      and p: "(nextHandle (one_session 99), clock (one_session 99) + thirty_minutes,
               ''terminal-'' @ ''u2'') \<in> set (pendingTimers m')"
      and s: "spawned m' = spawned (one_session 99) @ [''claude'']"
      by blast
    have "createTerminal env_ok ''u2'' 7 mcp_request (one_session 99) =
              (m', [TerminalCreated ''r2'' True
                      (Some (''terminal-u2'', 2, ''claude-agent-2'',
                             ServerList [''filesystem''])) None])"
      using m unfolding vals name by simp
    moreover have "keys (terminals m') = {''terminal-u1'', ''terminal-u2''}"
      using k unfolding vals by (simp add: insert_commute)
    moreover have "map_of (terminalTimeouts m') ''terminal-u2'' = Some 1"
      using h unfolding vals by simp
    moreover have "(1, 1800000, ''terminal-u2'') \<in> set (pendingTimers m')"
      using p unfolding vals by simp
    moreover have "spawned m' = [''claude'', ''claude'']"
      using s unfolding vals by simp
    ultimately show ?thesis by blast
  qed
  show ?thesis
    by (intro conjI) (fact r1 r99 len cap ssh mk sp ok)+
qed


theorem C3_destroy_then_not_found:
  assumes "map_of (terminals m) tid = Some info" and "\<not> kill_throws (ptyProcess info)"
  shows "handleDestroyTerminal req tid m =
           (m\<lparr>terminals := AList.delete tid (terminals m),
              pendingTimers := (case map_of (terminalTimeouts m) tid of
                                  None \<Rightarrow> pendingTimers m
                                | Some h \<Rightarrow> AList.delete h (pendingTimers m)),
              terminalTimeouts := AList.delete tid (terminalTimeouts m),
              agentHandoffs := AList.delete tid (agentHandoffs m)\<rparr>,
            [TerminalDestroyed req tid True None])
    \<and> tid \<notin> keys (terminals (fst (handleDestroyTerminal req tid m)))
    \<and> tid \<notin> keys (terminalTimeouts (fst (handleDestroyTerminal req tid m)))
    \<and> tid \<notin> keys (agentHandoffs (fst (handleDestroyTerminal req tid m)))
    \<and> handleDestroyTerminal req' tid (fst (handleDestroyTerminal req tid m)) =
          (fst (handleDestroyTerminal req tid m),
           [TerminalDestroyed req' tid False (Some TerminalNotFound)])"
proof -
  have first: "handleDestroyTerminal req tid m =
           (m\<lparr>terminals := AList.delete tid (terminals m),
              pendingTimers := (case map_of (terminalTimeouts m) tid of
                                  None \<Rightarrow> pendingTimers m
                                | Some h \<Rightarrow> AList.delete h (pendingTimers m)),
              terminalTimeouts := AList.delete tid (terminalTimeouts m),
              agentHandoffs := AList.delete tid (agentHandoffs m)\<rparr>,
            [TerminalDestroyed req tid True None])"
    using assms
    by (simp add: handleDestroyTerminal_def pty_kill_def clearTimeout_def Let_def
        split: option.splits)
  have gone: "map_of (terminals (fst (handleDestroyTerminal req tid m))) tid = None"
    by (simp add: first delete_conv')
  have second: "handleDestroyTerminal req' tid (fst (handleDestroyTerminal req tid m)) =
          (fst (handleDestroyTerminal req tid m),
           [TerminalDestroyed req' tid False (Some TerminalNotFound)])"
    using gone by (simp add: handleDestroyTerminal_def)
  show ?thesis
    using first second by simp
qed

lemma destroy_absent:
  "tid \<notin> keys (terminals m) \<Longrightarrow>
   handleDestroyTerminal req tid m = (m, [TerminalDestroyed req tid False (Some TerminalNotFound)])"
  by (simp add: handleDestroyTerminal_def map_of_None_keys [symmetric])

theorem C3_counterexample:
  "map_of (terminals ((one_session 99)\<lparr>terminals := [(''terminal-u1'', worker_unkillable)]\<rparr>))
      ''terminal-u1'' = Some worker_unkillable
   \<and> handleDestroyTerminal ''d1'' ''terminal-u1''
        ((one_session 99)\<lparr>terminals := [(''terminal-u1'', worker_unkillable)]\<rparr>) =
       ((one_session 99)\<lparr>terminals := [(''terminal-u1'', worker_unkillable)]\<rparr>,
        [TerminalDestroyed ''d1'' ''terminal-u1'' False (Some (Thrown (Error ''kill failed'')))])"
  by (simp add: handleDestroyTerminal_def pty_kill_def worker_unkillable_def worker_info_def
      one_session_def pty_fresh_def)

theorem C3_witness:
  "map_of (terminals (one_session 99)) ''terminal-u1'' = Some worker_info
   \<and> \<not> kill_throws (ptyProcess worker_info)
   \<and> handleDestroyTerminal ''d1'' ''terminal-u1'' (one_session 99) =
       ((manager_new 99)\<lparr>nextHandle := 1, spawned := [''claude'']\<rparr>,
        [TerminalDestroyed ''d1'' ''terminal-u1'' True None])
   \<and> handleDestroyTerminal ''d2'' ''terminal-u1''
        ((manager_new 99)\<lparr>nextHandle := 1, spawned := [''claude'']\<rparr>) =
       ((manager_new 99)\<lparr>nextHandle := 1, spawned := [''claude'']\<rparr>,
        [TerminalDestroyed ''d2'' ''terminal-u1'' False (Some TerminalNotFound)])"
  using C3_destroy_then_not_found [of "one_session 99" "''terminal-u1''" worker_info "''d1''" "''d2''"]
  by (simp add: one_session_def worker_info_def pty_fresh_def manager_new_def
      handleDestroyTerminal_def pty_kill_def clearTimeout_def)

lemma handoff_once:
  assumes "map_of (terminals m) tid = Some info"
  shows "\<exists>info' e. map_of (terminals (fst (handoffToAgent tid a c m))) tid = Some info'
     \<and> map_of (agentHandoffs (fst (handoffToAgent tid a c m))) tid =
         Some \<lparr>currentAgent = a, history = history (record_before m tid info) @ [e]\<rparr>
     \<and> toAgent e = a \<and> fromAgent e = currentAgent (record_before m tid info)
     \<and> handoff_ctx e = c"
  using assms
  by (auto simp: handoffToAgent_def record_before_def Let_def update_conv' split: option.splits)

lemma handoffs_append:
  assumes "map_of (terminals m) tid = Some info"
  shows "\<exists>info' es. map_of (terminals (handoffs tid calls m)) tid = Some info'
     \<and> length es = length calls \<and> map toAgent es = map fst calls
     \<and> map handoff_ctx es = map snd calls
     \<and> (calls \<noteq> [] \<longrightarrow>
          map_of (agentHandoffs (handoffs tid calls m)) tid =
            Some \<lparr>currentAgent = fst (last calls),
                  history = history (record_before m tid info) @ es\<rparr>
          \<and> fromAgent (hd es) = currentAgent (record_before m tid info))"
  using assms
proof (induction calls arbitrary: m info)
  case Nil
  then show ?case by (simp add: handoffs_def)
next
  case (Cons call calls)
  obtain a c where call: "call = (a, c)" by (cases call)
  let ?m1 = "fst (handoffToAgent tid a c m)"
  from handoff_once [OF Cons.prems, of a c] obtain info1 e where
    t1: "map_of (terminals ?m1) tid = Some info1"
    and h1: "map_of (agentHandoffs ?m1) tid =
         Some \<lparr>currentAgent = a, history = history (record_before m tid info) @ [e]\<rparr>"
    and e: "toAgent e = a" "fromAgent e = currentAgent (record_before m tid info)"
      "handoff_ctx e = c"
    by blast
  have rb: "record_before ?m1 tid info1 =
      \<lparr>currentAgent = a, history = history (record_before m tid info) @ [e]\<rparr>"
    using h1 by (simp add: record_before_def)
  from Cons.IH [OF t1] obtain info' es where
    t: "map_of (terminals (handoffs tid calls ?m1)) tid = Some info'"
    and es: "length es = length calls" "map toAgent es = map fst calls"
      "map handoff_ctx es = map snd calls"
    and rest: "calls \<noteq> [] \<longrightarrow>
          map_of (agentHandoffs (handoffs tid calls ?m1)) tid =
            Some \<lparr>currentAgent = fst (last calls),
                  history = history (record_before ?m1 tid info1) @ es\<rparr>"
    by blast
  have unfold: "handoffs tid (call # calls) m = handoffs tid calls ?m1"
    by (simp add: handoffs_def call)
  show ?case
  proof (intro exI [of _ info'] exI [of _ "e # es"] conjI impI)
    show "map_of (terminals (handoffs tid (call # calls) m)) tid = Some info'"
      using t unfold by simp
    show "length (e # es) = length (call # calls)" using es by simp
    show "map toAgent (e # es) = map fst (call # calls)" using es e call by simp
    show "map handoff_ctx (e # es) = map snd (call # calls)" using es e call by simp
    show "map_of (agentHandoffs (handoffs tid (call # calls) m)) tid =
            Some \<lparr>currentAgent = fst (last (call # calls)),
                  history = history (record_before m tid info) @ e # es\<rparr>"
    proof (cases "calls = []")
      case True
      then show ?thesis using h1 es call by (simp add: handoffs_def)
    next
      case False
      then show ?thesis using rest rb unfold by simp
    qed
    show "fromAgent (hd (e # es)) = currentAgent (record_before m tid info)"
      using e by simp
  qed
qed

theorem C4_handoff_history:
  assumes "map_of (terminals m) tid = Some info"
    and "map_of (agentHandoffs m) tid = None"
    and "calls \<noteq> []"
  shows "\<exists>h. map_of (agentHandoffs (handoffs tid calls m)) tid = Some h
     \<and> length (history h) = length calls
     \<and> map toAgent (history h) = map fst calls
     \<and> currentAgent h = toAgent (last (history h))
     \<and> fromAgent (hd (history h)) = or_else (agentName info) ''bash''
     \<and> (agentName info \<noteq> [] \<longrightarrow> fromAgent (hd (history h)) = agentName info)"
proof -
  have rb: "record_before m tid info =
      \<lparr>currentAgent = or_else (agentName info) ''bash'', history = []\<rparr>"
    using assms(2) by (simp add: record_before_def)
  from handoffs_append [OF assms(1), of calls] assms(3) rb obtain es where
    es: "length es = length calls" "map toAgent es = map fst calls"
    and h: "map_of (agentHandoffs (handoffs tid calls m)) tid =
            Some \<lparr>currentAgent = fst (last calls), history = es\<rparr>"
    and f: "fromAgent (hd es) = or_else (agentName info) ''bash''"
    by auto
  have ne: "es \<noteq> []" using es(1) assms(3) by auto
  have "toAgent (last es) = fst (last calls)"
    using es(2) ne assms(3) by (metis last_map)
  then show ?thesis
    using es h f by (auto simp: or_else_def)
qed

lemma reset_pending:
  "pendingTimers (priv_resetTerminalTimeout tid m) =
     (case map_of (terminalTimeouts m) tid of
        None \<Rightarrow> pendingTimers m
      | Some k \<Rightarrow> AList.delete k (pendingTimers m))
     @ [(nextHandle m, clock m + thirty_minutes, tid)]"
  by (simp add: priv_resetTerminalTimeout_def clearTimeout_def Let_def split: option.splits)

lemma reset_timeouts:
  "terminalTimeouts (priv_resetTerminalTimeout tid m) =
     AList.update tid (nextHandle m) (terminalTimeouts m)"
  by (simp add: priv_resetTerminalTimeout_def clearTimeout_def Let_def split: option.splits)

lemma reset_nextHandle:
  "nextHandle (priv_resetTerminalTimeout tid m) = Suc (nextHandle m)"
  by (simp add: priv_resetTerminalTimeout_def clearTimeout_def Let_def split: option.splits)

lemma reset_timers:
  assumes "inv m"
  shows "map_of (terminalTimeouts (priv_resetTerminalTimeout tid m)) tid = Some (nextHandle m)
     \<and> {x \<in> set (pendingTimers (priv_resetTerminalTimeout tid m)). snd (snd x) = tid} =
         {(nextHandle m, clock m + thirty_minutes, tid)}"
proof -
  let ?kept = "case map_of (terminalTimeouts m) tid of
        None \<Rightarrow> pendingTimers m
      | Some k \<Rightarrow> AList.delete k (pendingTimers m)"
  have kept: "snd (snd x) \<noteq> tid" if "x \<in> set ?kept" for x
  proof
    assume t: "snd (snd x) = tid"
    obtain h d where x: "x = (h, d, tid)" using t by (cases x) auto
    show False
    proof (cases "map_of (terminalTimeouts m) tid")
      case None
      then have "(h, d, tid) \<in> set (pendingTimers m)" using that x by simp
      then have "map_of (terminalTimeouts m) tid = Some h"
        using assms by (auto simp: inv_def)
      with None show False by simp
    next
      case (Some k)
      then have "(h, d, tid) \<in> set (pendingTimers m)" and "h \<noteq> k"
        using that x by (auto simp: set_delete)
      then have "map_of (terminalTimeouts m) tid = Some h"
        using assms by (auto simp: inv_def)
      with Some \<open>h \<noteq> k\<close> show False by simp
    qed
  qed
  have "{x \<in> set (?kept @ [(nextHandle m, clock m + thirty_minutes, tid)]). snd (snd x) = tid} =
         {(nextHandle m, clock m + thirty_minutes, tid)}"
    using kept by auto
  then show ?thesis
    by (simp add: reset_pending reset_timeouts update_conv')
qed

lemmas pattern_defs = match_here_def is_word_char_def is_line_terminator_def ascii_lower_def
  is_white_space_def

lemma inv_reachable: "inv (run es (manager_new maxT))"
  by (intro inv_run inv_new)

lemma handoff_frame:
  "pendingTimers (fst (handoffToAgent tid a c m)) = pendingTimers m"
  "terminalTimeouts (fst (handoffToAgent tid a c m)) = terminalTimeouts m"
  "nextHandle (fst (handoffToAgent tid a c m)) = nextHandle m"
  "clock (fst (handoffToAgent tid a c m)) = clock m"
  "keys (terminals (fst (handoffToAgent tid a c m))) = keys (terminals m)"
  by (auto simp: handoffToAgent_def Let_def dest: map_of_keys split: option.splits)

lemma monitor_frame:
  "pendingTimers (priv_monitorAgentOutput tid data m) = pendingTimers m"
  "terminalTimeouts (priv_monitorAgentOutput tid data m) = terminalTimeouts m"
  "nextHandle (priv_monitorAgentOutput tid data m) = nextHandle m"
  "clock (priv_monitorAgentOutput tid data m) = clock m"
  "keys (terminals (priv_monitorAgentOutput tid data m)) = keys (terminals m)"
  by (simp_all add: priv_monitorAgentOutput_def handoff_frame split: option.splits prod.splits)

lemma data_keeps_timers:
  "pendingTimers (fst (onData tid data m)) = pendingTimers m
   \<and> terminalTimeouts (fst (onData tid data m)) = terminalTimeouts m"
  by (simp add: onData_def Let_def monitor_frame split: option.splits)

lemma data_touches_lastActivity:
  assumes "map_of (terminals m) tid = Some info"
  shows "\<exists>info'. map_of (terminals (fst (onData tid data m))) tid = Some info'
          \<and> lastActivity info' = clock m"
proof -
  have "tid \<in> keys (terminals (priv_monitorAgentOutput tid data m))"
    using assms by (simp add: monitor_frame map_of_keys)
  then obtain i1 where "map_of (terminals (priv_monitorAgentOutput tid data m)) tid = Some i1"
    using map_of_None_keys [of "terminals (priv_monitorAgentOutput tid data m)" tid]
    by (cases "map_of (terminals (priv_monitorAgentOutput tid data m)) tid") auto
  then show ?thesis
    by (simp add: onData_def Let_def update_conv' monitor_frame)
qed

lemma input_resets:
  assumes "inv m" and "map_of (terminals m) tid = Some info"
    and "\<not> write_throws (ptyProcess info)"
  shows "map_of (terminalTimeouts (handleTerminalInput tid data m)) tid = Some (nextHandle m)
     \<and> {x \<in> set (pendingTimers (handleTerminalInput tid data m)). snd (snd x) = tid} =
         {(nextHandle m, clock m + thirty_minutes, tid)}"
proof -
  let ?m1 = "m\<lparr>terminals := AList.update tid
      (info\<lparr>ptyProcess := (ptyProcess info)\<lparr>written := written (ptyProcess info) @ [data]\<rparr>\<rparr>)
      (terminals m)\<rparr>"
  have h: "handleTerminalInput tid data m = priv_resetTerminalTimeout tid ?m1"
    using assms(2,3) by (simp add: handleTerminalInput_def pty_write_def)
  have "inv ?m1" using assms(1) by (rule inv_terminals_update)
  from reset_timers [OF this, of tid] show ?thesis by (simp add: h)
qed

lemma command_resets:
  assumes "inv m" and "map_of (terminals m) tid = Some info"
    and "\<not> write_throws (ptyProcess info)"
  shows "map_of (terminalTimeouts (fst (handleTerminalCommand req tid command m))) tid
           = Some (nextHandle m)
     \<and> {x \<in> set (pendingTimers (fst (handleTerminalCommand req tid command m))).
          snd (snd x) = tid} =
         {(nextHandle m, clock m + thirty_minutes, tid)}"
proof -
  let ?m1 = "m\<lparr>terminals := AList.update tid
      (info\<lparr>ptyProcess := (ptyProcess info)
         \<lparr>written := written (ptyProcess info) @ [command @ [CHR 0x5C, CHR ''r'']]\<rparr>\<rparr>)
      (terminals m)\<rparr>"
  have h: "fst (handleTerminalCommand req tid command m) = priv_resetTerminalTimeout tid ?m1"
    using assms(2,3) by (simp add: handleTerminalCommand_def pty_write_def)
  have "inv ?m1" using assms(1) by (rule inv_terminals_update)
  from reset_timers [OF this, of tid] show ?thesis by (simp add: h)
qed

lemma expiry_evicts:
  assumes "map_of (terminals m) tid = Some info" and "\<not> kill_throws (ptyProcess info)"
    and "map_of (pendingTimers m) h = Some (d, tid)" and "d \<le> clock m"
  shows "tid \<notin> keys (terminals (fire_timer h m))"
  using assms
  by (simp add: fire_timer_def timeout_callback_def pty_kill_def)

theorem C5_idle_timer_reset_by_client_input:
  assumes "m = run es (manager_new maxT)"
    and "map_of (terminals m) tid = Some info"
    and "\<not> write_throws (ptyProcess info)"
  shows "map_of (terminalTimeouts (handleTerminalInput tid data m)) tid = Some (nextHandle m)
     \<and> {x \<in> set (pendingTimers (handleTerminalInput tid data m)). snd (snd x) = tid} =
         {(nextHandle m, clock m + thirty_minutes, tid)}
     \<and> map_of (terminalTimeouts (fst (handleTerminalCommand req tid command m))) tid
           = Some (nextHandle m)
     \<and> {x \<in> set (pendingTimers (fst (handleTerminalCommand req tid command m))).
          snd (snd x) = tid} =
         {(nextHandle m, clock m + thirty_minutes, tid)}
     \<and> pendingTimers (fst (onData tid chunk m)) = pendingTimers m
     \<and> terminalTimeouts (fst (onData tid chunk m)) = terminalTimeouts m
     \<and> (\<exists>info'. map_of (terminals (fst (onData tid chunk m))) tid = Some info'
           \<and> lastActivity info' = clock m)
     \<and> (\<forall>h d. map_of (pendingTimers m) h = Some (d, tid) \<and> d \<le> clock m
           \<and> \<not> kill_throws (ptyProcess info) \<longrightarrow>
           tid \<notin> keys (terminals (fire_timer h m)))"
proof -
  have i: "inv m" unfolding assms(1) by (rule inv_reachable)
  show ?thesis
    using input_resets [OF i assms(2,3), of data]
      command_resets [OF i assms(2,3), of req command]
      data_keeps_timers [of tid chunk m]
      data_touches_lastActivity [OF assms(2), of chunk]
      expiry_evicts [OF assms(2)]
    by blast
qed

theorem C5_counterexample:
  "run [Create env_ok ''u1'' 7 claude_request, Tick 1740000,
        Data ''terminal-u1'' ''busy'', Tick 60000] (manager_new 99) =
     (one_session 99)
       \<lparr>terminals := [(''terminal-u1'',
            worker_info\<lparr>outputBuffer := [(1740000, ''busy'')], lastActivity := 1740000\<rparr>)],
        clock := 1800000\<rparr>
   \<and> run [Create env_ok ''u1'' 7 claude_request, Tick 1740000,
          Data ''terminal-u1'' ''busy'', Tick 60000, Expire 0] (manager_new 99) =
     (manager_new 99)\<lparr>nextHandle := 1, clock := 1800000, spawned := [''claude'']\<rparr>"
  by (simp add: manager_defs sample_defs pattern_defs)

theorem C5_witness:
  "one_session 99 = run [Create env_ok ''u1'' 7 claude_request] (manager_new 99)
   \<and> map_of (terminals (one_session 99)) ''terminal-u1'' = Some worker_info
   \<and> \<not> write_throws (ptyProcess worker_info)
   \<and> pendingTimers (handleTerminalInput ''terminal-u1'' ''ls''
         ((one_session 99)\<lparr>clock := 1000\<rparr>)) = [(1, 1801000, ''terminal-u1'')]
   \<and> pendingTimers (fst (onData ''terminal-u1'' ''busy''
         ((one_session 99)\<lparr>clock := 1000\<rparr>))) = [(0, 1800000, ''terminal-u1'')]
   \<and> {x \<in> set (pendingTimers (handleTerminalInput ''terminal-u1'' ''ls'' (one_session 99))).
          snd (snd x) = ''terminal-u1''} = {(1, 1800000, ''terminal-u1'')}"
proof -
  have r: "one_session 99 = run [Create env_ok ''u1'' 7 claude_request] (manager_new 99)"
    by (simp add: one_session_run)
  have t: "map_of (terminals (one_session 99)) ''terminal-u1'' = Some worker_info"
    by (simp add: one_session_def)
  have w: "\<not> write_throws (ptyProcess worker_info)"
    by (simp add: worker_info_def pty_fresh_def)
  have a: "pendingTimers (handleTerminalInput ''terminal-u1'' ''ls''
         ((one_session 99)\<lparr>clock := 1000\<rparr>)) = [(1, 1801000, ''terminal-u1'')]"
    by (simp add: manager_defs sample_defs)
  have b: "pendingTimers (fst (onData ''terminal-u1'' ''busy''
         ((one_session 99)\<lparr>clock := 1000\<rparr>))) = [(0, 1800000, ''terminal-u1'')]"
    by (simp add: manager_defs sample_defs pattern_defs)
  have c: "{x \<in> set (pendingTimers (handleTerminalInput ''terminal-u1'' ''ls'' (one_session 99))).
          snd (snd x) = ''terminal-u1''} = {(1, 1800000, ''terminal-u1'')}"
    using C5_idle_timer_reset_by_client_input [OF r t w, of "''ls''"]
    by (simp add: one_session_def thirty_minutes_def)
  show ?thesis by (intro conjI) (fact r t w a b c)+
qed

lemma free_text_nonempty: "free_text k r = Some x \<Longrightarrow> x \<noteq> []"
  by (induction k) (auto split: list.splits if_splits)

lemma match_here_text_nonempty: "match_here s = Some (name, Some x) \<Longrightarrow> x \<noteq> []"
  by (auto simp: match_here_def Let_def split: option.splits if_splits
      dest: free_text_nonempty)

lemma match_here_name_nonempty: "match_here s = Some (name, text2) \<Longrightarrow> name \<noteq> []"
  by (auto simp: match_here_def Let_def split: option.splits if_splits)

lemma pattern_text_nonempty:
  "handoffPattern_match data = Some (name, Some x) \<Longrightarrow> x \<noteq> []"
  by (induction data) (auto split: option.splits dest: match_here_text_nonempty)

lemma pattern_name_nonempty:
  "handoffPattern_match data = Some (name, text2) \<Longrightarrow> name \<noteq> []"
  by (induction data) (auto split: option.splits dest: match_here_name_nonempty)

lemma white_space_not_word: "is_white_space c \<Longrightarrow> \<not> is_word_char c"
  by (auto simp: is_white_space_def is_word_char_def Let_def)

lemma strip_handoff_prefix: "strip_prefix_ci ''handoff-to:'' (''handoff-to:'' @ r) = Some r"
  by (simp add: ascii_lower_def)

lemma takeWhile_all: "\<forall>c\<in>set xs. P c \<Longrightarrow> ys = [] \<or> \<not> P (hd ys) \<Longrightarrow> takeWhile P (xs @ ys) = xs"
  by (cases ys) (auto simp: takeWhile_append2)

lemma dropWhile_all: "\<forall>c\<in>set xs. P c \<Longrightarrow> ys = [] \<or> \<not> P (hd ys) \<Longrightarrow> dropWhile P (xs @ ys) = ys"
  by (cases ys) (auto simp: dropWhile_append2)

lemma free_text_found:
  assumes "ws \<noteq> []" and "body \<noteq> []" and "\<forall>c\<in>set body. \<not> is_line_terminator c"
    and "rest = [] \<or> is_line_terminator (hd rest)"
  shows "free_text (length ws) (ws @ body @ rest) = Some body"
proof -
  obtain k where k: "length ws = Suc k" using assms(1) by (cases ws) auto
  obtain c cs where t: "body = c # cs" using assms(2) by (cases body) auto
  have tw: "takeWhile (\<lambda>x. \<not> is_line_terminator x) (body @ rest) = body"
    using assms(3,4) by (intro takeWhile_all) auto
  have "drop (Suc k) (ws @ body @ rest) = body @ rest" using k by simp
  then show ?thesis using k t tw assms(3) by simp
qed

lemma handoff_pattern_with_text:
  assumes "name \<noteq> []" and "\<forall>c\<in>set name. is_word_char c"
    and "ws \<noteq> []" and "\<forall>c\<in>set ws. is_white_space c"
    and "body \<noteq> []" and "\<not> is_white_space (hd body)"
    and "\<forall>c\<in>set body. \<not> is_line_terminator c"
    and "rest = [] \<or> is_line_terminator (hd rest)"
  shows "match_here (''handoff-to:'' @ name @ ws @ body @ rest) = Some (name, Some body)"
proof -
  have nw: "\<not> is_word_char (hd (ws @ body @ rest))"
    using assms(3,4) by (cases ws) (auto dest: white_space_not_word)
  have n: "takeWhile is_word_char (name @ ws @ body @ rest) = name"
    using assms(2) nw by (intro takeWhile_all) auto
  have d: "dropWhile is_word_char (name @ ws @ body @ rest) = ws @ body @ rest"
    using assms(2) nw by (intro dropWhile_all) auto
  have w: "takeWhile is_white_space (ws @ body @ rest) = ws"
    using assms(4,5,6) by (intro takeWhile_all) (cases body, auto)
  show ?thesis
    using n d w assms(1) free_text_found [OF assms(3,5,7,8)]
    by (simp add: match_here_def Let_def ascii_lower_def)
qed

lemma handoff_pattern_without_text:
  assumes "name \<noteq> []" and "\<forall>c\<in>set name. is_word_char c"
    and "rest = [] \<or> (\<not> is_word_char (hd rest) \<and> \<not> is_white_space (hd rest))"
  shows "match_here (''handoff-to:'' @ name @ rest) = Some (name, None)"
proof -
  have n: "takeWhile is_word_char (name @ rest) = name"
    using assms(2,3) by (intro takeWhile_all) auto
  have d: "dropWhile is_word_char (name @ rest) = rest"
    using assms(2,3) by (intro dropWhile_all) auto
  have w: "takeWhile is_white_space rest = []"
    using assms(3) by (cases rest) auto
  show ?thesis
    using n d w assms(1)
    by (simp add: match_here_def Let_def ascii_lower_def)
qed

lemma match_here_needs_h: "ascii_lower c \<noteq> CHR ''h'' \<Longrightarrow> match_here (c # s) = None"
  by (simp add: match_here_def ascii_lower_def)

lemma pattern_skips_prefix:
  assumes "\<forall>c\<in>set pre. ascii_lower c \<noteq> CHR ''h''" and "match_here s = Some r"
  shows "handoffPattern_match (pre @ s) = Some r"
  using assms
proof (induction pre)
  case Nil
  then show ?case by (cases s) simp_all
next
  case (Cons c pre)
  then show ?case by (simp add: match_here_needs_h)
qed

theorem C6_output_handoff_recorded:
  assumes "map_of (terminals m) tid = Some info"
    and "handoffPattern_match data = Some (name, text2)"
  shows "map_of (agentHandoffs (fst (onData tid data m))) tid =
     Some \<lparr>currentAgent = name,
           history = history (record_before m tid info) @
             [\<lparr>timestamp = clock m,
               fromAgent = currentAgent (record_before m tid info),
               toAgent = name,
               handoff_ctx =
                 \<lparr>ctx_reason = Some ''Agent requested handoff'',
                  ctx_message = Some (case text2 of
                                        None \<Rightarrow> ''No context provided''
                                      | Some x \<Rightarrow> x)\<rparr>,
               reason = ''Agent requested handoff''\<rparr>]\<rparr>"
proof -
  have msg: "(case text2 of None \<Rightarrow> ''No context provided''
                | Some x \<Rightarrow> or_else x ''No context provided'') =
             (case text2 of None \<Rightarrow> ''No context provided'' | Some x \<Rightarrow> x)"
    using pattern_text_nonempty [of data name] assms(2)
    by (cases text2) (auto simp: or_else_def)
  have "map_of (agentHandoffs (priv_monitorAgentOutput tid data m)) tid =
     Some \<lparr>currentAgent = name,
           history = history (record_before m tid info) @
             [\<lparr>timestamp = clock m,
               fromAgent = currentAgent (record_before m tid info),
               toAgent = name,
               handoff_ctx =
                 \<lparr>ctx_reason = Some ''Agent requested handoff'',
                  ctx_message = Some (case text2 of
                                        None \<Rightarrow> ''No context provided''
                                      | Some x \<Rightarrow> x)\<rparr>,
               reason = ''Agent requested handoff''\<rparr>]\<rparr>"
    using assms msg
    by (simp add: priv_monitorAgentOutput_def handoffToAgent_def Let_def update_conv'
        record_before_def truthy_def split: option.splits)
  then show ?thesis
    by (simp add: onData_def Let_def split: option.splits)
qed

lemma scenario_match:
  "handoffPattern_match (''handoff-to:reviewer please check PR'' @ [LF]) =
     Some (''reviewer'', Some ''please check PR'')"
  by (simp add: pattern_defs)

lemma bare_match: "handoffPattern_match ''handoff-to:reviewer'' = Some (''reviewer'', None)"
  by (simp add: pattern_defs)

theorem C6_counterexample:
  "agentHandoffs (fst (onData ''terminal-u1'' ''handoff-to:reviewer'' (one_session 99))) =
     [(''terminal-u1'',
       \<lparr>currentAgent = ''reviewer'',
        history = [requested ''worker'' ''reviewer'' ''No context provided'']\<rparr>)]
   \<and> ''No context provided'' \<noteq> ''no context provided''"
  by (simp add: manager_defs sample_defs pattern_defs requested_def)

theorem C6_witness:
  "map_of (terminals (one_session 99)) ''terminal-u1'' = Some worker_info
   \<and> handoffPattern_match (''handoff-to:reviewer please check PR'' @ [LF]) =
       Some (''reviewer'', Some ''please check PR'')
   \<and> map_of (agentHandoffs (fst (onData ''terminal-u1''
          (''handoff-to:reviewer please check PR'' @ [LF]) (one_session 99)))) ''terminal-u1'' =
       Some \<lparr>currentAgent = ''reviewer'',
             history = [requested ''worker'' ''reviewer'' ''please check PR'']\<rparr>"
proof -
  have t: "map_of (terminals (one_session 99)) ''terminal-u1'' = Some worker_info"
    by (simp add: one_session_def)
  have r: "record_before (one_session 99) ''terminal-u1'' worker_info =
      \<lparr>currentAgent = ''worker'', history = []\<rparr>"
    by (simp add: record_before_def one_session_def worker_info_def or_else_def)
  have c: "clock (one_session 99) = 0" by (simp add: one_session_def)
  show ?thesis
    using t scenario_match C6_output_handoff_recorded [OF t scenario_match]
    by (simp add: r c requested_def)
qed

theorem C4_witness:
  "map_of (terminals (one_session 99)) ''terminal-u1'' = Some worker_info
   \<and> map_of (agentHandoffs (one_session 99)) ''terminal-u1'' = None
   \<and> [(''reviewer'', no_context), (''tester'', no_context)] \<noteq> []
   \<and> agentName worker_info = ''worker''
   \<and> map_of (agentHandoffs (handoffs ''terminal-u1''
          [(''reviewer'', no_context), (''tester'', no_context)] (one_session 99)))
        ''terminal-u1'' =
       Some \<lparr>currentAgent = ''tester'',
             history = [manual ''worker'' ''reviewer'', manual ''reviewer'' ''tester'']\<rparr>"
  using C4_handoff_history [of "one_session 99" "''terminal-u1''" worker_info
      "[(''reviewer'', no_context), (''tester'', no_context)]"]
  by (simp add: handoffs_def manager_defs sample_defs no_context_def manual_def)

lemma keeps_terminals:
  assumes "tid \<in> keys (terminals m)" and "tid \<notin> keys (terminals (step e m))"
  shows "(\<exists>req. e = Destroy req tid) \<or> (\<exists>c s. e = Exit tid c s)
       \<or> (\<exists>h d. e = Expire h \<and> map_of (pendingTimers m) h = Some (d, tid) \<and> d \<le> clock m)"
proof (cases e)
  case (Create env uuid ws msg)
  consider (e) err where "priv_createTerminalProcess env ws (''terminal-'' @ uuid) (length (terminals m) + 1) msg m = Inl err"
    | (r) info out where "priv_createTerminalProcess env ws (''terminal-'' @ uuid) (length (terminals m) + 1) msg m =
         Inr (priv_resetTerminalTimeout (''terminal-'' @ uuid)
                (m\<lparr>terminals := AList.update (''terminal-'' @ uuid) info (terminals m),
                   spawned := spawned m @ [''claude'']\<rparr>), out)"
    using create_process_cases by blast
  then have "keys (terminals m) \<subseteq> keys (terminals (step e m))"
    by cases (auto simp: Create createTerminal_def Let_def)
  then show ?thesis using assms by auto
next
  case (TermInput t data)
  then have "keys (terminals m) \<subseteq> keys (terminals (step e m))"
    by (auto simp: handleTerminalInput_def split: option.splits sum.splits)
  then show ?thesis using assms by auto
next
  case (TermCommand req t command)
  then have "keys (terminals m) \<subseteq> keys (terminals (step e m))"
    by (auto simp: handleTerminalCommand_def split: option.splits sum.splits)
  then show ?thesis using assms by auto
next
  case (Destroy req t)
  then show ?thesis using assms
    by (auto simp: handleDestroyTerminal_def clearTimeout_def Let_def
        split: option.splits sum.splits)
next
  case (Handoff t a c)
  then show ?thesis using assms by (simp add: handoff_frame)
next
  case (Data t data)
  then have "keys (terminals m) \<subseteq> keys (terminals (step e m))"
    by (auto simp: onData_def Let_def monitor_frame split: option.splits)
  then show ?thesis using assms by auto
next
  case (Exit t c s)
  then show ?thesis using assms
    by (auto simp: onExit_def clearTimeout_def Let_def split: option.splits)
next
  case (Expire h)
  then show ?thesis using assms
    by (auto simp: fire_timer_def timeout_callback_def
        split: option.splits sum.splits prod.splits if_splits)
next
  case (Tick n)
  then show ?thesis using assms by simp
next
  case (Fault t w k)
  then show ?thesis using assms by (auto split: option.splits)
qed

lemma inv_nothing_outlives:
  assumes "inv m" and "tid \<notin> keys (terminals m)"
  shows "tid \<notin> keys (terminalTimeouts m) \<and> tid \<notin> keys (agentHandoffs m)
       \<and> (\<forall>(h, d, t) \<in> set (pendingTimers m). t \<noteq> tid)"
proof (intro conjI)
  show "tid \<notin> keys (terminalTimeouts m)" and "tid \<notin> keys (agentHandoffs m)"
    using assms by (auto simp: inv_def)
  show "\<forall>(h, d, t) \<in> set (pendingTimers m). t \<noteq> tid"
  proof (clarify)
    fix h d
    assume "(h, d, tid) \<in> set (pendingTimers m)"
    then have "map_of (terminalTimeouts m) tid = Some h"
      using assms(1) by (auto simp: inv_def)
    then have "tid \<in> keys (terminalTimeouts m)" by (rule map_of_keys)
    then show False using assms by (auto simp: inv_def)
  qed
qed

theorem C7_removal_paths_clean_up:
  assumes "m = run es (manager_new maxT)"
  shows "(tid \<notin> keys (terminals m) \<longrightarrow>
            tid \<notin> keys (terminalTimeouts m) \<and> tid \<notin> keys (agentHandoffs m)
            \<and> (\<forall>(h, d, t) \<in> set (pendingTimers m). t \<noteq> tid))
     \<and> (tid \<in> keys (terminals m) \<and> tid \<notin> keys (terminals (step e m)) \<longrightarrow>
            ((\<exists>req. e = Destroy req tid) \<or> (\<exists>c s. e = Exit tid c s)
             \<or> (\<exists>h d. e = Expire h \<and> map_of (pendingTimers m) h = Some (d, tid)
                        \<and> d \<le> clock m))
            \<and> tid \<notin> keys (terminalTimeouts (step e m))
            \<and> tid \<notin> keys (agentHandoffs (step e m))
            \<and> (\<forall>(h, d, t) \<in> set (pendingTimers (step e m)). t \<noteq> tid))"
proof -
  have i: "inv m" unfolding assms by (rule inv_reachable)
  have i': "inv (step e m)" using i by (rule inv_step)
  show ?thesis
    using inv_nothing_outlives [OF i, of tid] inv_nothing_outlives [OF i', of tid]
      keeps_terminals [of tid m e]
    by blast
qed

theorem C7_counterexample:
  "''terminal-u1'' \<in> keys (terminals
      (run [Create env_ok ''u1'' 7 claude_request, Tick 1800000] (manager_new 99)))
   \<and> ''terminal-u1'' \<notin> keys (terminals
      (step (Expire 0)
         (run [Create env_ok ''u1'' 7 claude_request, Tick 1800000] (manager_new 99))))"
  by (simp add: manager_defs sample_defs keys_def)

theorem C7_witness:
  "one_session 99 = run [Create env_ok ''u1'' 7 claude_request] (manager_new 99)
   \<and> ''terminal-u1'' \<in> keys (terminals (one_session 99))
   \<and> ''terminal-u1'' \<notin> keys (terminals (step (Destroy ''d1'' ''terminal-u1'') (one_session 99)))
   \<and> terminalTimeouts (step (Destroy ''d1'' ''terminal-u1'') (one_session 99)) = []
   \<and> agentHandoffs (step (Destroy ''d1'' ''terminal-u1'') (one_session 99)) = []
   \<and> pendingTimers (step (Destroy ''d1'' ''terminal-u1'') (one_session 99)) = []"
proof -
  have r: "one_session 99 = run [Create env_ok ''u1'' 7 claude_request] (manager_new 99)"
    by (simp add: one_session_run)
  have a: "''terminal-u1'' \<in> keys (terminals (one_session 99))"
    by (simp add: one_session_def keys_def)
  have b: "''terminal-u1'' \<notin> keys (terminals (step (Destroy ''d1'' ''terminal-u1'') (one_session 99)))"
    by (simp add: manager_defs sample_defs keys_def)
  have c: "terminalTimeouts (step (Destroy ''d1'' ''terminal-u1'') (one_session 99)) = []
   \<and> agentHandoffs (step (Destroy ''d1'' ''terminal-u1'') (one_session 99)) = []
   \<and> pendingTimers (step (Destroy ''d1'' ''terminal-u1'') (one_session 99)) = []"
    using C7_removal_paths_clean_up [OF r, of "''terminal-u1''" "Destroy ''d1'' ''terminal-u1''"] a b
    by (simp add: manager_defs sample_defs)
  show ?thesis using r a b c by blast
qed

end
